theory Spec2Isabelle
  imports Main "HOL-Library.AList"
begin

section \<open>HTTP status codes\<close>

text \<open>The constants of net/http that the package uses. Go's \<^verbatim>\<open>int\<close> is read as \<open>int\<close>:
  no arithmetic is done on a status.\<close>

definition StatusOK :: int where
  "StatusOK = 200"

definition StatusCreated :: int where
  "StatusCreated = 201"

definition StatusBadRequest :: int where
  "StatusBadRequest = 400"

definition StatusNotFound :: int where
  "StatusNotFound = 404"

definition StatusInternalServerError :: int where
  "StatusInternalServerError = 500"

section \<open>JSON documents\<close>

text \<open>What \<^verbatim>\<open>json.Marshal\<close> encodes is kept as a document tree, not as bytes: an object
  lists its members in the order the encoder writes them (struct fields in declaration
  order). \<^verbatim>\<open>{}\<close> is \<open>JObject []\<close>.\<close>

datatype json =
    JNull
  | JBool bool
  | JNumber int
  | JString string
  | JArray "json list"
  | JObject "(string \<times> json) list"

text \<open>The member of an object under a key; a document that is no object has none.\<close>

fun member :: "json \<Rightarrow> string \<Rightarrow> json option" where
  "member (JObject kvs) k = map_of kvs k"
| "member JNull k = None"
| "member (JBool b) k = None"
| "member (JNumber n) k = None"
| "member (JString s) k = None"
| "member (JArray xs) k = None"

section \<open>The response writer\<close>

text \<open>\<^verbatim>\<open>http.ResponseWriter\<close> as a recorder of what the handler sends: the header map,
  the status written by \<^verbatim>\<open>WriteHeader\<close> (\<open>None\<close> while no header has been
  written) and the documents written by \<^verbatim>\<open>Write\<close>, oldest first.\<close>

record ResponseWriter =
  Header :: "(string \<times> string) list"
  Code :: "int option"
  Written :: "json list"

definition NewRecorder :: ResponseWriter where
  "NewRecorder = \<lparr>Header = [], Code = None, Written = []\<rparr>"

text \<open>\<^verbatim>\<open>w.Header().Set(k, v)\<close> replaces the value stored under the key.\<close>

definition Header_Set :: "ResponseWriter \<Rightarrow> string \<Rightarrow> string \<Rightarrow> ResponseWriter" where
  "Header_Set w k v = w\<lparr>Header := AList.update k v (Header w)\<rparr>"

definition Header_Get :: "ResponseWriter \<Rightarrow> string \<Rightarrow> string option" where
  "Header_Get w k = map_of (Header w) k"

text \<open>\<^verbatim>\<open>w.WriteHeader(status)\<close>: the first status written is the one sent, a later call
  changes nothing.\<close>

definition WriteHeader :: "ResponseWriter \<Rightarrow> int \<Rightarrow> ResponseWriter" where
  "WriteHeader w status = (if Code w = None then w\<lparr>Code := Some status\<rparr> else w)"

text \<open>\<^verbatim>\<open>w.Write(content)\<close>: writes status 200 first when no header has been written, then
  the content. The error it returns is dropped by the only caller.\<close>

definition Write :: "ResponseWriter \<Rightarrow> json \<Rightarrow> ResponseWriter" where
  "Write w content =
     (let w1 = WriteHeader w StatusOK in w1\<lparr>Written := Written w1 @ [content]\<rparr>)"

section \<open>Errors\<close>

text \<open>Modelled from the spec: \<^verbatim>\<open>internal.ErrorCode\<close> and its constants (package
  \<^verbatim>\<open>internal\<close>). The spec names three classifications, not-found, invalid-argument and
  unknown; \<open>ErrorCodeOther\<close> stands for any other value of the type, which the
  \<^verbatim>\<open>default\<close> branch of the renderer's switch receives.\<close>

datatype ErrorCode =
    ErrorCodeUnknown
  | ErrorCodeNotFound
  | ErrorCodeInvalidArgument
  | ErrorCodeOther nat

text \<open>Go's \<^verbatim>\<open>error\<close> values, as far as the renderer can tell them apart:
  \<^item> \<open>nil\<close>, the nil error;
  \<^item> \<open>errorString s\<close>, an error of any other type that wraps nothing;
  \<^item> \<open>wrapError s e\<close>, an error of any other type whose \<^verbatim>\<open>Unwrap\<close> returns \<open>e\<close>;
  \<^item> \<open>internal_Error msg code orig\<close>, a \<^verbatim>\<open>*internal.Error\<close>. Modelled from the
    spec: \<^verbatim>\<open>internal.Error\<close> (package \<^verbatim>\<open>internal\<close>), an error that carries a
    classification (\<^verbatim>\<open>Code()\<close>) and may carry another error, which
    \<^verbatim>\<open>Unwrap\<close> returns;
  \<^item> \<open>validation_Errors v\<close>, a \<^verbatim>\<open>validation.Errors\<close>: the field-level failures as
    pairs of field name and message, in the key order in which the encoder writes the map.\<close>

datatype error =
    nil
  | errorString string
  | wrapError string error
  | internal_Error string ErrorCode error
  | validation_Errors "(string \<times> string) list"

text \<open>\<^verbatim>\<open>errors.As(err, &ierr)\<close> with \<^verbatim>\<open>ierr *internal.Error\<close>: false on nil;
  otherwise the first error of that type on the \<^verbatim>\<open>Unwrap\<close> chain, as its fields.\<close>

fun errors_As_Error :: "error \<Rightarrow> (string \<times> ErrorCode \<times> error) option" where
  "errors_As_Error nil = None"
| "errors_As_Error (errorString s) = None"
| "errors_As_Error (wrapError s e) = errors_As_Error e"
| "errors_As_Error (internal_Error msg code orig) = Some (msg, code, orig)"
| "errors_As_Error (validation_Errors v) = None"

text \<open>\<^verbatim>\<open>errors.As(err, &verrors)\<close> with \<^verbatim>\<open>verrors validation.Errors\<close>.\<close>

fun errors_As_Errors :: "error \<Rightarrow> (string \<times> string) list option" where
  "errors_As_Errors nil = None"
| "errors_As_Errors (errorString s) = None"
| "errors_As_Errors (wrapError s e) = errors_As_Errors e"
| "errors_As_Errors (internal_Error msg code orig) = errors_As_Errors orig"
| "errors_As_Errors (validation_Errors v) = Some v"

section \<open>rest.go: the renderers\<close>

text \<open>\<^verbatim>\<open>ErrorResponse\<close>. The zero value of \<open>Validations\<close> (a nil map) is \<open>[]\<close>.\<close>

record ErrorResponse =
  Error :: string
  Validations :: "(string \<times> string) list"

text \<open>\<^verbatim>\<open>json.Marshal\<close> of a \<^verbatim>\<open>validation.Errors\<close>: an object of the messages.\<close>

definition Marshal_Errors :: "(string \<times> string) list \<Rightarrow> json" where
  "Marshal_Errors v = JObject (map (\<lambda>(k, m). (k, JString m)) v)"

text \<open>\<^verbatim>\<open>json.Marshal\<close> of an \<^verbatim>\<open>ErrorResponse\<close>, by its struct tags: \<^verbatim>\<open>error\<close>
  always, \<^verbatim>\<open>validations\<close> with \<^verbatim>\<open>omitempty\<close>, which leaves out a map of length 0.\<close>

definition Marshal_ErrorResponse :: "ErrorResponse \<Rightarrow> json option" where
  "Marshal_ErrorResponse resp =
     Some (JObject ((''error'', JString (Error resp)) #
       (if length (Validations resp) = 0 then []
        else [(''validations'', Marshal_Errors (Validations resp))])))"

text \<open>\<^verbatim>\<open>renderResponse(w, res, status)\<close>. \<^verbatim>\<open>json.Marshal\<close> is the first argument: it
  returns \<open>None\<close> where the encoder returns an error.\<close>

definition renderResponse ::
  "('a \<Rightarrow> json option) \<Rightarrow> ResponseWriter \<Rightarrow> 'a \<Rightarrow> int \<Rightarrow> ResponseWriter" where
  "renderResponse json_Marshal w res status =
     (let w1 = Header_Set w ''Content-Type'' ''application/json'' in
      case json_Marshal res of
        None \<Rightarrow> WriteHeader w1 StatusInternalServerError
      | Some content \<Rightarrow> Write (WriteHeader w1 status) content)"

text \<open>\<^verbatim>\<open>renderErrorResponse(ctx, w, msg, err)\<close>. The context is read as the tracer behind
  it: the list of the errors recorded on spans, each with the name of its span. The
  function returns the tracer and the writer after the call.\<close>

definition renderErrorResponse ::
  "(string \<times> error) list \<Rightarrow> ResponseWriter \<Rightarrow> string \<Rightarrow> error
    \<Rightarrow> (string \<times> error) list \<times> ResponseWriter" where
  "renderErrorResponse ctx w msg err =
     (let resp = \<lparr>Error = msg, Validations = []\<rparr>;
          status = StatusInternalServerError;
          (resp, status) =
            (case errors_As_Error err of
               None \<Rightarrow> (resp\<lparr>Error := ''internal error''\<rparr>, status)
             | Some (imsg, icode, iorig) \<Rightarrow>
                 (case icode of
                    ErrorCodeNotFound \<Rightarrow> (resp, StatusNotFound)
                  | ErrorCodeInvalidArgument \<Rightarrow>
                      (case errors_As_Errors (internal_Error imsg icode iorig) of
                         Some verrors \<Rightarrow> (resp\<lparr>Validations := verrors\<rparr>, StatusBadRequest)
                       | None \<Rightarrow> (resp, StatusBadRequest))
                  | ErrorCodeUnknown \<Rightarrow> (resp, StatusInternalServerError)
                  | ErrorCodeOther n \<Rightarrow> (resp, StatusInternalServerError)));
          ctx1 = (if err \<noteq> nil then ctx @ [(''rest.renderErrorResponse'', err)] else ctx)
      in (ctx1, renderResponse Marshal_ErrorResponse w resp status))"

section \<open>The task handlers\<close>

subsection \<open>Wire types, requests and the service\<close>

text \<open>\<^verbatim>\<open>Task\<close>, \<^verbatim>\<open>CreateTasksRequest\<close>, \<^verbatim>\<open>CreateTasksResponse\<close>,
  \<^verbatim>\<open>ReadTasksResponse\<close> and \<^verbatim>\<open>UpdateTasksRequest\<close> of package \<^verbatim>\<open>rest\<close>. The wire
  types \<^verbatim>\<open>Priority\<close> and \<^verbatim>\<open>Dates\<close> are declared outside the two files: they are the
  type parameters \<open>'p\<close> and \<open>'d\<close>.\<close>

record ('p, 'd) Task =
  ID :: string
  Description :: string
  Priority :: 'p
  Dates :: 'd

record ('p, 'd) CreateTasksRequest =
  Description :: string
  Priority :: 'p
  Dates :: 'd

record ('p, 'd) CreateTasksResponse =
  Task :: "('p, 'd) Task"

record ('p, 'd) ReadTasksResponse =
  Task :: "('p, 'd) Task"

record ('p, 'd) UpdateTasksRequest =
  Description :: string
  IsDone :: bool
  Priority :: 'p
  Dates :: 'd

text \<open>\<^verbatim>\<open>internal.Task\<close>, with the four fields the handlers read; \<^verbatim>\<open>internal.Priority\<close>
  and \<^verbatim>\<open>internal.Dates\<close> are the type parameters \<open>'ip\<close> and \<open>'idt\<close>.\<close>

record ('ip, 'idt) internal_Task =
  ID :: string
  Description :: string
  Priority :: 'ip
  Dates :: 'idt

text \<open>What the handlers use and the two files do not declare, as parameters: the
  conversions between wire and domain types (\<^verbatim>\<open>Priority.Convert\<close>, \<^verbatim>\<open>Dates.Convert\<close>,
  \<^verbatim>\<open>NewPriority\<close>, \<^verbatim>\<open>NewDates\<close>), \<^verbatim>\<open>json.Marshal\<close> on the two wire types, and
  the step of the decoder that stores a JSON value, given as its text, in a request of
  each type: \<open>None\<close> where the encoder or the decoder returns an error.\<close>

record ('p, 'd, 'ip, 'idt) wire =
  Priority_Convert :: "'p \<Rightarrow> 'ip"
  Dates_Convert :: "'d \<Rightarrow> 'idt"
  NewPriority :: "'ip \<Rightarrow> 'p"
  NewDates :: "'idt \<Rightarrow> 'd"
  Marshal_Priority :: "'p \<Rightarrow> json option"
  Marshal_Dates :: "'d \<Rightarrow> json option"
  Unmarshal_CreateTasksRequest :: "string \<Rightarrow> ('p, 'd) CreateTasksRequest option"
  Unmarshal_UpdateTasksRequest :: "string \<Rightarrow> ('p, 'd) UpdateTasksRequest option"

text \<open>The interface \<^verbatim>\<open>TaskService\<close>. A handler calls the service at most once, so an
  implementation is given by what each method returns on its arguments; Go's pair
  \<^verbatim>\<open>(internal.Task, error)\<close> is kept as a pair.\<close>

record ('c, 'ip, 'idt) TaskService =
  Create :: "'c \<Rightarrow> string \<Rightarrow> 'ip \<Rightarrow> 'idt \<Rightarrow> ('ip, 'idt) internal_Task \<times> error"
  Task :: "'c \<Rightarrow> string \<Rightarrow> ('ip, 'idt) internal_Task \<times> error"
  Update :: "'c \<Rightarrow> string \<Rightarrow> string \<Rightarrow> 'ip \<Rightarrow> 'idt \<Rightarrow> bool \<Rightarrow> error"

text \<open>The calls a handler makes on the service, with their arguments, as the generated
  fake of the interface records them.\<close>

datatype ('c, 'ip, 'idt) service_call =
    CreateCall 'c string 'ip 'idt
  | TaskCall 'c string
  | UpdateCall 'c string string 'ip 'idt bool

text \<open>\<^verbatim>\<open>*http.Request\<close>: its context, the bytes of its body, whether \<^verbatim>\<open>r.Body.Close()\<close>
  has been called, and the route variables \<^verbatim>\<open>mux.Vars(r)\<close>.\<close>

record 'c Request =
  Context :: 'c
  Body :: string
  BodyClosed :: bool
  Vars :: "(string \<times> string) list"

subsection \<open>Decoding the requests\<close>

text \<open>\<^verbatim>\<open>json.NewDecoder(r.Body).Decode(&req)\<close> reads the next JSON value from the body and
  stores it in the request. The bytes of the value are found by the scanner; what
  follows the value is left unread.\<close>

definition isSpace :: "char \<Rightarrow> bool" where
  "isSpace c = (c = CHR '' '' \<or> c = CHR 0x09 \<or> c = CHR 0x0D \<or> c = CHR 0x0A)"

definition isDigit :: "char \<Rightarrow> bool" where
  "isDigit c = (c \<in> set ''0123456789'')"

definition isDigit19 :: "char \<Rightarrow> bool" where
  "isDigit19 c = (c \<in> set ''123456789'')"

definition isHex :: "char \<Rightarrow> bool" where
  "isHex c = (c \<in> set ''0123456789abcdefABCDEF'')"

text \<open>The scanner of \<^verbatim>\<open>encoding/json\<close> (scanner.go) is a machine that reads one byte
  at a time: a state, named after its step function, and a stack of the objects and
  arrays that are open, innermost first.\<close>

datatype parseState = parseObjectKey | parseObjectValue | parseArrayValue

datatype scanState =
    stateBeginValue | stateBeginValueOrEmpty | stateBeginStringOrEmpty | stateBeginString
  | stateEndValue
  | stateInString | stateInStringEsc
  | stateInStringEscU | stateInStringEscU1 | stateInStringEscU12 | stateInStringEscU123
  | stateNeg | state1 | state0 | stateDot | stateDot0 | stateE | stateESign | stateE0
  | stateT | stateTr | stateTru
  | stateF | stateFa | stateFal | stateFals
  | stateN | stateNu | stateNul

text \<open>What a step returns, as far as the decoder tells the codes apart: go on in a new
  state, the end of an object or array (with the stack after it is closed), the end of
  the top-level value before the current byte, or a syntax error.\<close>

datatype scanCode =
    scanContinue scanState "parseState list"
  | scanEndContainer "parseState list"
  | scanEnd
  | scanError

definition maxNestingDepth :: nat where
  "maxNestingDepth = 10000"

text \<open>Opening an object or array fails beyond the nesting depth the scanner allows.\<close>

definition pushParseState :: "parseState list \<Rightarrow> parseState \<Rightarrow> scanState \<Rightarrow> scanCode" where
  "pushParseState stack newParseState successState =
     (if length (newParseState # stack) \<le> maxNestingDepth
      then scanContinue successState (newParseState # stack) else scanError)"

text \<open>\<^verbatim>\<open>stateEndValue\<close>: after a value. With nothing open the top-level value is complete;
  inside an object or array the byte must separate or close.\<close>

fun stateEndValue_step :: "parseState list \<Rightarrow> char \<Rightarrow> scanCode" where
  "stateEndValue_step [] c = scanEnd"
| "stateEndValue_step (ps # stack) c =
     (if isSpace c then scanContinue stateEndValue (ps # stack)
      else case ps of
        parseObjectKey \<Rightarrow>
          if c = CHR '':'' then scanContinue stateBeginValue (parseObjectValue # stack)
          else scanError
      | parseObjectValue \<Rightarrow>
          if c = CHR '','' then scanContinue stateBeginString (parseObjectKey # stack)
          else if c = CHR ''}'' then scanEndContainer stack
          else scanError
      | parseArrayValue \<Rightarrow>
          if c = CHR '','' then scanContinue stateBeginValue (parseArrayValue # stack)
          else if c = CHR '']'' then scanEndContainer stack
          else scanError)"

definition stateBeginValue_step :: "parseState list \<Rightarrow> char \<Rightarrow> scanCode" where
  "stateBeginValue_step stack c =
     (if isSpace c then scanContinue stateBeginValue stack
      else if c = CHR ''{'' then pushParseState stack parseObjectKey stateBeginStringOrEmpty
      else if c = CHR ''['' then pushParseState stack parseArrayValue stateBeginValueOrEmpty
      else if c = CHR 0x22 then scanContinue stateInString stack
      else if c = CHR ''-'' then scanContinue stateNeg stack
      else if c = CHR ''0'' then scanContinue state0 stack
      else if c = CHR ''t'' then scanContinue stateT stack
      else if c = CHR ''f'' then scanContinue stateF stack
      else if c = CHR ''n'' then scanContinue stateN stack
      else if isDigit19 c then scanContinue state1 stack
      else scanError)"

definition stateBeginString_step :: "parseState list \<Rightarrow> char \<Rightarrow> scanCode" where
  "stateBeginString_step stack c =
     (if isSpace c then scanContinue stateBeginString stack
      else if c = CHR 0x22 then scanContinue stateInString stack
      else scanError)"

definition state0_step :: "parseState list \<Rightarrow> char \<Rightarrow> scanCode" where
  "state0_step stack c =
     (if c = CHR ''.'' then scanContinue stateDot stack
      else if c = CHR ''e'' \<or> c = CHR ''E'' then scanContinue stateE stack
      else stateEndValue_step stack c)"

definition stateESign_step :: "parseState list \<Rightarrow> char \<Rightarrow> scanCode" where
  "stateESign_step stack c = (if isDigit c then scanContinue stateE0 stack else scanError)"

definition expect :: "char \<Rightarrow> scanState \<Rightarrow> parseState list \<Rightarrow> char \<Rightarrow> scanCode" where
  "expect want next stack c = (if c = want then scanContinue next stack else scanError)"

fun step :: "scanState \<Rightarrow> parseState list \<Rightarrow> char \<Rightarrow> scanCode" where
  "step stateBeginValue stack c = stateBeginValue_step stack c"
| "step stateBeginValueOrEmpty stack c =
     (if isSpace c then scanContinue stateBeginValueOrEmpty stack
      else if c = CHR '']'' then stateEndValue_step stack c
      else stateBeginValue_step stack c)"
| "step stateBeginStringOrEmpty stack c =
     (if isSpace c then scanContinue stateBeginStringOrEmpty stack
      else if c = CHR ''}'' then
        (case stack of
           [] \<Rightarrow> scanError
         | ps # rest \<Rightarrow> stateEndValue_step (parseObjectValue # rest) c)
      else stateBeginString_step stack c)"
| "step stateBeginString stack c = stateBeginString_step stack c"
| "step stateEndValue stack c = stateEndValue_step stack c"
| "step stateInString stack c =
     (if c = CHR 0x22 then scanContinue stateEndValue stack
      else if c = CHR 0x5C then scanContinue stateInStringEsc stack
      else if (of_char c :: nat) < 32 then scanError
      else scanContinue stateInString stack)"
| "step stateInStringEsc stack c =
     (if c \<in> set [CHR ''b'', CHR ''f'', CHR ''n'', CHR ''r'', CHR ''t'', CHR 0x5C, CHR ''/'', CHR 0x22]
      then scanContinue stateInString stack
      else if c = CHR ''u'' then scanContinue stateInStringEscU stack
      else scanError)"
| "step stateInStringEscU stack c =
     (if isHex c then scanContinue stateInStringEscU1 stack else scanError)"
| "step stateInStringEscU1 stack c =
     (if isHex c then scanContinue stateInStringEscU12 stack else scanError)"
| "step stateInStringEscU12 stack c =
     (if isHex c then scanContinue stateInStringEscU123 stack else scanError)"
| "step stateInStringEscU123 stack c =
     (if isHex c then scanContinue stateInString stack else scanError)"
| "step stateNeg stack c =
     (if c = CHR ''0'' then scanContinue state0 stack
      else if isDigit19 c then scanContinue state1 stack
      else scanError)"
| "step state1 stack c =
     (if isDigit c then scanContinue state1 stack else state0_step stack c)"
| "step state0 stack c = state0_step stack c"
| "step stateDot stack c = (if isDigit c then scanContinue stateDot0 stack else scanError)"
| "step stateDot0 stack c =
     (if isDigit c then scanContinue stateDot0 stack
      else if c = CHR ''e'' \<or> c = CHR ''E'' then scanContinue stateE stack
      else stateEndValue_step stack c)"
| "step stateE stack c =
     (if c = CHR ''+'' \<or> c = CHR ''-'' then scanContinue stateESign stack
      else stateESign_step stack c)"
| "step stateESign stack c = stateESign_step stack c"
| "step stateE0 stack c =
     (if isDigit c then scanContinue stateE0 stack else stateEndValue_step stack c)"
| "step stateT stack c = expect CHR ''r'' stateTr stack c"
| "step stateTr stack c = expect CHR ''u'' stateTru stack c"
| "step stateTru stack c = expect CHR ''e'' stateEndValue stack c"
| "step stateF stack c = expect CHR ''a'' stateFa stack c"
| "step stateFa stack c = expect CHR ''l'' stateFal stack c"
| "step stateFal stack c = expect CHR ''s'' stateFals stack c"
| "step stateFals stack c = expect CHR ''e'' stateEndValue stack c"
| "step stateN stack c = expect CHR ''u'' stateNu stack c"
| "step stateNu stack c = expect CHR ''l'' stateNul stack c"
| "step stateNul stack c = expect CHR ''l'' stateEndValue stack c"

text \<open>\<^verbatim>\<open>Decoder.readValue\<close>: steps through the bytes until the first value is complete
  and returns the bytes after it. A top-level object or array ends with its closing
  bracket; any other value ends before the first byte that does not continue it. At the
  end of the input the value is complete if a space would end it. \<open>None\<close> is a
  syntax error or an input that ends too early.\<close>

fun readValue :: "scanState \<Rightarrow> parseState list \<Rightarrow> string \<Rightarrow> string option" where
  "readValue st stack [] =
     (case step st stack CHR '' '' of
        scanEnd \<Rightarrow> Some []
      | scanContinue st' stack' \<Rightarrow> None
      | scanEndContainer stack' \<Rightarrow> None
      | scanError \<Rightarrow> None)"
| "readValue st stack (c # cs) =
     (case step st stack c of
        scanEnd \<Rightarrow> Some (c # cs)
      | scanEndContainer stack' \<Rightarrow>
          (if stack' = [] then Some cs else readValue stateEndValue stack' cs)
      | scanError \<Rightarrow> None
      | scanContinue st' stack' \<Rightarrow> readValue st' stack' cs)"


text \<open>\<^verbatim>\<open>Decode\<close> on the two request types: the first value of the body is read and
  stored in the request.\<close>

definition Decode_CreateTasksRequest ::
  "('p, 'd, 'ip, 'idt) wire \<Rightarrow> string \<Rightarrow> ('p, 'd) CreateTasksRequest option" where
  "Decode_CreateTasksRequest env body =
     (case readValue stateBeginValue [] body of
        None \<Rightarrow> None
      | Some rest \<Rightarrow> Unmarshal_CreateTasksRequest env (take (length body - length rest) body))"

definition Decode_UpdateTasksRequest ::
  "('p, 'd, 'ip, 'idt) wire \<Rightarrow> string \<Rightarrow> ('p, 'd) UpdateTasksRequest option" where
  "Decode_UpdateTasksRequest env body =
     (case readValue stateBeginValue [] body of
        None \<Rightarrow> None
      | Some rest \<Rightarrow> Unmarshal_UpdateTasksRequest env (take (length body - length rest) body))"

subsection \<open>Encoding the responses\<close>

text \<open>\<^verbatim>\<open>json.Marshal\<close> by the struct tags of \<^verbatim>\<open>Task\<close>: it fails where the encoding of
  a field fails.\<close>

definition Marshal_Task :: "('p, 'd, 'ip, 'idt) wire \<Rightarrow> ('p, 'd) Task \<Rightarrow> json option" where
  "Marshal_Task env t =
     (case Marshal_Priority env (Task.Priority t) of
        None \<Rightarrow> None
      | Some p \<Rightarrow>
          (case Marshal_Dates env (Task.Dates t) of
             None \<Rightarrow> None
           | Some d \<Rightarrow>
               Some (JObject [(''id'', JString (Task.ID t)),
                              (''description'', JString (Task.Description t)),
                              (''priority'', p), (''dates'', d)])))"

definition Marshal_CreateTasksResponse ::
  "('p, 'd, 'ip, 'idt) wire \<Rightarrow> ('p, 'd) CreateTasksResponse \<Rightarrow> json option" where
  "Marshal_CreateTasksResponse env resp =
     (case Marshal_Task env (CreateTasksResponse.Task resp) of
        None \<Rightarrow> None
      | Some t \<Rightarrow> Some (JObject [(''task'', t)]))"

definition Marshal_ReadTasksResponse ::
  "('p, 'd, 'ip, 'idt) wire \<Rightarrow> ('p, 'd) ReadTasksResponse \<Rightarrow> json option" where
  "Marshal_ReadTasksResponse env resp =
     (case Marshal_Task env (ReadTasksResponse.Task resp) of
        None \<Rightarrow> None
      | Some t \<Rightarrow> Some (JObject [(''task'', t)]))"

text \<open>\<^verbatim>\<open>json.Marshal(&struct{}{})\<close>.\<close>

definition Marshal_struct :: "unit \<Rightarrow> json option" where
  "Marshal_struct u = Some (JObject [])"

subsection \<open>The handlers\<close>

text \<open>The handlers call \<^verbatim>\<open>renderErrorResponse(w, msg, status)\<close>, with a writer, a
  message and a status. Neither file declares a function of these arguments: the
  renderer of rest.go takes a context and an error, and no status. The function the
  handlers call is therefore their parameter \<open>renderError\<close>, of which nothing is
  assumed.\<close>

text \<open>A handler returns the writer, the request and the calls made on the service. The
  deferred \<^verbatim>\<open>r.Body.Close()\<close> runs when the handler returns, on the paths that have
  reached the \<^verbatim>\<open>defer\<close> statement.\<close>

definition create ::
  "('p, 'd, 'ip, 'idt) wire \<Rightarrow> (ResponseWriter \<Rightarrow> string \<Rightarrow> int \<Rightarrow> ResponseWriter)
    \<Rightarrow> ('c, 'ip, 'idt) TaskService \<Rightarrow> ResponseWriter \<Rightarrow> 'c Request
    \<Rightarrow> ResponseWriter \<times> 'c Request \<times> ('c, 'ip, 'idt) service_call list" where
  "create env renderError svc w r =
     (case Decode_CreateTasksRequest env (Body r) of
        None \<Rightarrow> (renderError w ''invalid request'' StatusBadRequest, r, [])
      | Some req \<Rightarrow>
          (let r1 = r\<lparr>BodyClosed := True\<rparr>;
               priority = Priority_Convert env (CreateTasksRequest.Priority req);
               dates = Dates_Convert env (CreateTasksRequest.Dates req);
               (task, err) =
                 Create svc (Context r) (CreateTasksRequest.Description req) priority dates;
               calls = [CreateCall (Context r) (CreateTasksRequest.Description req) priority dates]
           in if err \<noteq> nil
              then (renderError w ''create failed'' StatusInternalServerError,
                    r1, calls)
              else (renderResponse (Marshal_CreateTasksResponse env) w
                      \<lparr>CreateTasksResponse.Task =
                         \<lparr>Task.ID = internal_Task.ID task,
                          Task.Description = internal_Task.Description task,
                          Task.Priority = NewPriority env (internal_Task.Priority task),
                          Task.Dates = NewDates env (internal_Task.Dates task)\<rparr>\<rparr>
                      StatusCreated,
                    r1, calls)))"

text \<open>\<^verbatim>\<open>mux.Vars(r)["id"]\<close>: the empty string when the variable is not set.\<close>

definition Vars_id :: "'c Request \<Rightarrow> string" where
  "Vars_id r = (case map_of (Vars r) ''id'' of None \<Rightarrow> [] | Some v \<Rightarrow> v)"

definition task ::
  "('p, 'd, 'ip, 'idt) wire \<Rightarrow> (ResponseWriter \<Rightarrow> string \<Rightarrow> int \<Rightarrow> ResponseWriter)
    \<Rightarrow> ('c, 'ip, 'idt) TaskService \<Rightarrow> ResponseWriter \<Rightarrow> 'c Request
    \<Rightarrow> ResponseWriter \<times> 'c Request \<times> ('c, 'ip, 'idt) service_call list" where
  "task env renderError svc w r =
     (let (task, err) = TaskService.Task svc (Context r) (Vars_id r);
          calls = [TaskCall (Context r) (Vars_id r)]
      in if err \<noteq> nil
         then (renderError w ''find failed'' StatusInternalServerError, r, calls)
         else (renderResponse (Marshal_ReadTasksResponse env) w
                 \<lparr>ReadTasksResponse.Task =
                    \<lparr>Task.ID = internal_Task.ID task,
                     Task.Description = internal_Task.Description task,
                     Task.Priority = NewPriority env (internal_Task.Priority task),
                     Task.Dates = NewDates env (internal_Task.Dates task)\<rparr>\<rparr>
                 StatusOK,
               r, calls))"

definition update ::
  "('p, 'd, 'ip, 'idt) wire \<Rightarrow> (ResponseWriter \<Rightarrow> string \<Rightarrow> int \<Rightarrow> ResponseWriter)
    \<Rightarrow> ('c, 'ip, 'idt) TaskService \<Rightarrow> ResponseWriter \<Rightarrow> 'c Request
    \<Rightarrow> ResponseWriter \<times> 'c Request \<times> ('c, 'ip, 'idt) service_call list" where
  "update env renderError svc w r =
     (case Decode_UpdateTasksRequest env (Body r) of
        None \<Rightarrow> (renderError w ''invalid request'' StatusBadRequest, r, [])
      | Some req \<Rightarrow>
          (let r1 = r\<lparr>BodyClosed := True\<rparr>;
               priority = Priority_Convert env (UpdateTasksRequest.Priority req);
               dates = Dates_Convert env (UpdateTasksRequest.Dates req);
               err = Update svc (Context r) (Vars_id r) (UpdateTasksRequest.Description req)
                       priority dates (IsDone req);
               calls = [UpdateCall (Context r) (Vars_id r) (UpdateTasksRequest.Description req)
                          priority dates (IsDone req)]
           in if err \<noteq> nil
              then (renderError w ''update failed'' StatusInternalServerError,
                    r1, calls)
              else (renderResponse Marshal_struct w () StatusOK, r1, calls)))"

section \<open>Registration of the routes\<close>

subsection \<open>The pattern of the id\<close>

text \<open>The regular expressions that \<^verbatim>\<open>uuidRegEx\<close> is made of: a sequence of items
  \<^verbatim>\<open>a{n}\<close>, where \<open>a\<close> is a character class of ranges (\<^verbatim>\<open>[0-9a-fA-F]\<close>) or one
  literal character (\<^verbatim>\<open>\-\<close>, an item with \<open>n = 1\<close>).\<close>

datatype atom =
    Class "(char \<times> char) list"
  | Lit char

type_synonym regex = "(atom \<times> nat) list"

fun atom_matches :: "atom \<Rightarrow> char \<Rightarrow> bool" where
  "atom_matches (Class ranges) c =
     list_ex (\<lambda>(lo, hi). (of_char lo :: nat) \<le> of_char c \<and> (of_char c :: nat) \<le> of_char hi) ranges"
| "atom_matches (Lit l) c = (c = l)"

text \<open>Matching \<^verbatim>\<open>a{n}\<close> at the start of a string returns the rest of the string.\<close>

fun match_times :: "atom \<Rightarrow> nat \<Rightarrow> string \<Rightarrow> string option" where
  "match_times a 0 s = Some s"
| "match_times a (Suc n) [] = None"
| "match_times a (Suc n) (c # s) = (if atom_matches a c then match_times a n s else None)"

fun match_prefix :: "regex \<Rightarrow> string \<Rightarrow> string option" where
  "match_prefix [] s = Some s"
| "match_prefix ((a, n) # re) s =
     (case match_times a n s of None \<Rightarrow> None | Some rest \<Rightarrow> match_prefix re rest)"

definition hex_class :: atom where
  "hex_class = Class [(CHR ''0'', CHR ''9''), (CHR ''a'', CHR ''f''), (CHR ''A'', CHR ''F'')]"

definition uuidRegEx :: regex where
  "uuidRegEx =
     [(hex_class, 8), (Lit CHR ''-'', 1), (hex_class, 4), (Lit CHR ''-'', 1), (hex_class, 4),
      (Lit CHR ''-'', 1), (hex_class, 4), (Lit CHR ''-'', 1), (hex_class, 12)]"

subsection \<open>The router\<close>

text \<open>A path template of the router, \<^verbatim>\<open>/tasks/{id:pattern}\<close>: static text and variables
  with their patterns. A path matches when the whole of it matches; the match gives the
  values of the variables.\<close>

datatype template_part =
    Static string
  | Variable string regex

fun match_path :: "template_part list \<Rightarrow> string \<Rightarrow> (string \<times> string) list option" where
  "match_path [] s = (if s = [] then Some [] else None)"
| "match_path (Static t # ts) s =
     (if take (length t) s = t then match_path ts (drop (length t) s) else None)"
| "match_path (Variable name re # ts) s =
     (case match_prefix re s of
        None \<Rightarrow> None
      | Some rest \<Rightarrow>
          (case match_path ts rest of
             None \<Rightarrow> None
           | Some vars \<Rightarrow> Some ((name, take (length s - length rest) s) # vars)))"

text \<open>The three handlers of \<^verbatim>\<open>TaskHandler\<close>, as the values a route holds.\<close>

datatype handler = t_create | t_task | t_update

record route =
  template :: "template_part list"
  handler :: handler
  methods :: "string list"

text \<open>\<^verbatim>\<open>r.HandleFunc(path, f).Methods(m)\<close> adds one route at the end of the router.\<close>

definition HandleFunc_Methods ::
  "route list \<Rightarrow> template_part list \<Rightarrow> handler \<Rightarrow> string list \<Rightarrow> route list" where
  "HandleFunc_Methods r path f ms = r @ [\<lparr>template = path, handler = f, methods = ms\<rparr>]"

definition MethodGet :: string where
  "MethodGet = ''GET''"

definition MethodPost :: string where
  "MethodPost = ''POST''"

definition MethodPut :: string where
  "MethodPut = ''PUT''"

definition Register :: "route list \<Rightarrow> route list" where
  "Register r =
     (let r1 = HandleFunc_Methods r [Static ''/tasks''] t_create [MethodPost];
          r2 = HandleFunc_Methods r1 [Static ''/tasks/'', Variable ''id'' uuidRegEx] t_task
                 [MethodGet];
          r3 = HandleFunc_Methods r2 [Static ''/tasks/'', Variable ''id'' uuidRegEx] t_update
                 [MethodPut]
      in r3)"

text \<open>The router's dispatch: the first route, in the order of registration, whose path
  and method both match. When none does, the answer is 405 if some path matched with
  another method, and 404 otherwise; no handler runs.\<close>

datatype dispatch =
    Dispatched handler "(string \<times> string) list"
  | MethodNotAllowed
  | NotFound

fun Match :: "route list \<Rightarrow> bool \<Rightarrow> string \<Rightarrow> string \<Rightarrow> dispatch" where
  "Match [] mismatch method path = (if mismatch then MethodNotAllowed else NotFound)"
| "Match (rt # rts) mismatch method path =
     (case match_path (template rt) path of
        None \<Rightarrow> Match rts mismatch method path
      | Some vars \<Rightarrow>
          if method \<in> set (methods rt) then Dispatched (handler rt) vars
          else Match rts True method path)"

subsection \<open>The shape of a UUID, in the spec's words\<close>

text \<open>The canonical 8-4-4-4-12 hexadecimal shape: 36 characters, hyphens at positions
  8, 13, 18 and 23, hexadecimal digits everywhere else.\<close>

definition hex_digit :: "char \<Rightarrow> bool" where
  "hex_digit c = (c \<in> set ''0123456789abcdefABCDEF'')"

definition uuid_shape :: "string \<Rightarrow> bool" where
  "uuid_shape s =
     (length s = 36 \<and>
      list_all hex_digit (take 8 s) \<and> s ! 8 = CHR ''-'' \<and>
      list_all hex_digit (take 4 (drop 9 s)) \<and> s ! 13 = CHR ''-'' \<and>
      list_all hex_digit (take 4 (drop 14 s)) \<and> s ! 18 = CHR ''-'' \<and>
      list_all hex_digit (take 4 (drop 19 s)) \<and> s ! 23 = CHR ''-'' \<and>
      list_all hex_digit (drop 24 s))"

section \<open>Sample values\<close>

text \<open>An instance of the parameters, for evaluating the handlers: the wire priority is
  a string, the domain priority a number, dates are a pair of strings on both sides. The
  empty object is stored as the zero value of a request, and one more text of each type
  is known.\<close>

definition sample_create_body :: string where
  \<open>sample_create_body = ''{"description":"buy milk","priority":"low","dates":{}}''\<close>

definition sample_update_body :: string where
  \<open>sample_update_body =
     ''{"description":"buy milk","is_done":true,"priority":"low","dates":{}}''\<close>

definition sample_wire :: "(string, string \<times> string, nat, string \<times> string) wire" where
  "sample_wire =
     \<lparr>Priority_Convert =
        (\<lambda>p. if p = ''low'' then 1 else if p = ''medium'' then 2 else if p = ''high'' then 3 else 0),
      Dates_Convert = (\<lambda>d. d),
      NewPriority =
        (\<lambda>p. if p = 1 then ''low'' else if p = 2 then ''medium'' else if p = 3 then ''high''
              else ''none''),
      NewDates = (\<lambda>d. d),
      Marshal_Priority = (\<lambda>p. Some (JString p)),
      Marshal_Dates = (\<lambda>(start, due). Some (JObject [(''start'', JString start), (''due'', JString due)])),
      Unmarshal_CreateTasksRequest =
        (\<lambda>v. if v = ''{}''
              then Some \<lparr>CreateTasksRequest.Description = [],
                         CreateTasksRequest.Priority = [],
                         CreateTasksRequest.Dates = ([], [])\<rparr>
              else if v = sample_create_body
              then Some \<lparr>CreateTasksRequest.Description = ''buy milk'',
                         CreateTasksRequest.Priority = ''low'',
                         CreateTasksRequest.Dates = ([], [])\<rparr>
              else None),
      Unmarshal_UpdateTasksRequest =
        (\<lambda>v. if v = ''{}''
              then Some \<lparr>UpdateTasksRequest.Description = [], IsDone = False,
                         UpdateTasksRequest.Priority = [],
                         UpdateTasksRequest.Dates = ([], [])\<rparr>
              else if v = sample_update_body
              then Some \<lparr>UpdateTasksRequest.Description = ''buy milk'', IsDone = True,
                         UpdateTasksRequest.Priority = ''low'',
                         UpdateTasksRequest.Dates = ([], [])\<rparr>
              else None)\<rparr>"

text \<open>A service that stores what it is given under the id \<^verbatim>\<open>abc-123\<close>, one that
  rewrites the description of the task it creates, and one that fails with a given
  error.\<close>

definition echo_service :: "(unit, nat, string \<times> string) TaskService" where
  "echo_service =
     \<lparr>Create = (\<lambda>ctx description priority dates.
        (\<lparr>internal_Task.ID = ''abc-123'', internal_Task.Description = description,
          internal_Task.Priority = priority, internal_Task.Dates = dates\<rparr>, nil)),
      Task = (\<lambda>ctx ident.
        (\<lparr>internal_Task.ID = ident, internal_Task.Description = ''buy milk'',
          internal_Task.Priority = 1, internal_Task.Dates = ([], [])\<rparr>, nil)),
      Update = (\<lambda>ctx ident description priority dates isDone. nil)\<rparr>"

definition trimming_service :: "(unit, nat, string \<times> string) TaskService" where
  "trimming_service =
     echo_service\<lparr>Create := (\<lambda>ctx description priority dates.
        (\<lparr>internal_Task.ID = ''abc-123'', internal_Task.Description = ''milk'',
          internal_Task.Priority = priority, internal_Task.Dates = dates\<rparr>, nil))\<rparr>"

definition failing_service :: "error \<Rightarrow> (unit, nat, string \<times> string) TaskService" where
  "failing_service err =
     \<lparr>Create = (\<lambda>ctx description priority dates.
        (\<lparr>internal_Task.ID = [], internal_Task.Description = [],
          internal_Task.Priority = 0, internal_Task.Dates = ([], [])\<rparr>, err)),
      Task = (\<lambda>ctx ident.
        (\<lparr>internal_Task.ID = [], internal_Task.Description = [],
          internal_Task.Priority = 0, internal_Task.Dates = ([], [])\<rparr>, err)),
      Update = (\<lambda>ctx ident description priority dates isDone. err)\<rparr>"

definition sample_request :: "string \<Rightarrow> unit Request" where
  "sample_request b =
     \<lparr>Context = (), Body = b, BodyClosed = False,
      Vars = [(''id'', ''123e4567-e89b-12d3-a456-426614174000'')]\<rparr>"

section \<open>Properties of the renderers\<close>

lemmas Status_defs =
  StatusOK_def StatusCreated_def StatusBadRequest_def StatusNotFound_def
  StatusInternalServerError_def

lemma renderResponse_Some:
  "json_Marshal res = Some content \<Longrightarrow> Code w = None \<Longrightarrow>
   renderResponse json_Marshal w res status =
     w\<lparr>Header := AList.update ''Content-Type'' ''application/json'' (Header w),
       Code := Some status, Written := Written w @ [content]\<rparr>"
  by (simp add: renderResponse_def Header_Set_def WriteHeader_def Write_def)

lemma renderResponse_None:
  "json_Marshal res = None \<Longrightarrow> Code w = None \<Longrightarrow>
   renderResponse json_Marshal w res status =
     w\<lparr>Header := AList.update ''Content-Type'' ''application/json'' (Header w),
       Code := Some StatusInternalServerError\<rparr>"
  by (simp add: renderResponse_def Header_Set_def WriteHeader_def)

lemma map_of_update_same: "map_of (AList.update k v al) k = Some v"
  by (simp add: update_conv')

lemma Header_Get_renderResponse:
  "Header_Get (renderResponse json_Marshal w res status) ''Content-Type'' = Some ''application/json''"
  by (simp add: renderResponse_def Header_Get_def Header_Set_def WriteHeader_def Write_def
      map_of_update_same Let_def split: option.split)

text \<open>Claim C8. For every value and status given to the response renderer, on a writer
  whose header has not been written, the Content-Type header is set to application/json;
  when the value serializes, the given status and the serialized document are written;
  when serialization fails, status 500 is written and nothing else.\<close>

theorem renderResponse_contract:
  assumes "Code w = None"
  shows "Header_Get (renderResponse json_Marshal w res status) ''Content-Type''
           = Some ''application/json'' \<and>
         (\<forall>content. json_Marshal res = Some content \<longrightarrow>
            Code (renderResponse json_Marshal w res status) = Some status \<and>
            Written (renderResponse json_Marshal w res status) = Written w @ [content]) \<and>
         (json_Marshal res = None \<longrightarrow>
            Code (renderResponse json_Marshal w res status) = Some 500 \<and>
            Written (renderResponse json_Marshal w res status) = Written w)"
proof (intro conjI allI impI)
  show "Header_Get (renderResponse json_Marshal w res status) ''Content-Type''
          = Some ''application/json''"
    by (rule Header_Get_renderResponse)
next
  fix content
  assume m: "json_Marshal res = Some content"
  show "Code (renderResponse json_Marshal w res status) = Some status"
    using m assms by (simp add: renderResponse_Some)
  show "Written (renderResponse json_Marshal w res status) = Written w @ [content]"
    using m assms by (simp add: renderResponse_Some)
next
  assume m: "json_Marshal res = None"
  show "Code (renderResponse json_Marshal w res status) = Some 500"
    using m assms by (simp add: renderResponse_None StatusInternalServerError_def)
  show "Written (renderResponse json_Marshal w res status) = Written w"
    using m assms by (simp add: renderResponse_None)
qed

theorem renderResponse_contract_witness:
  "Code NewRecorder = None \<and>
   Marshal_struct () = Some (JObject []) \<and>
   Header_Get (renderResponse Marshal_struct NewRecorder () 200) ''Content-Type''
     = Some ''application/json'' \<and>
   Code (renderResponse Marshal_struct NewRecorder () 200) = Some 200 \<and>
   Written (renderResponse Marshal_struct NewRecorder () 200) = [JObject []] \<and>
   Marshal_Task (sample_wire\<lparr>Marshal_Dates := (\<lambda>d. None)\<rparr>)
     \<lparr>Task.ID = ''abc-123'', Task.Description = ''buy milk'', Task.Priority = ''low'',
      Task.Dates = ([], [])\<rparr> = None \<and>
   Code (renderResponse (Marshal_Task (sample_wire\<lparr>Marshal_Dates := (\<lambda>d. None)\<rparr>)) NewRecorder
     \<lparr>Task.ID = ''abc-123'', Task.Description = ''buy milk'', Task.Priority = ''low'',
      Task.Dates = ([], [])\<rparr> 201) = Some 500 \<and>
   Written (renderResponse (Marshal_Task (sample_wire\<lparr>Marshal_Dates := (\<lambda>d. None)\<rparr>)) NewRecorder
     \<lparr>Task.ID = ''abc-123'', Task.Description = ''buy milk'', Task.Priority = ''low'',
      Task.Dates = ([], [])\<rparr> 201) = []"
proof -
  have c: "Code NewRecorder = None"
    by (simp add: NewRecorder_def)
  have m1: "Marshal_struct () = Some (JObject [])"
    by (simp add: Marshal_struct_def)
  have m2: "Marshal_Task (sample_wire\<lparr>Marshal_Dates := (\<lambda>d. None)\<rparr>)
     \<lparr>Task.ID = ''abc-123'', Task.Description = ''buy milk'', Task.Priority = ''low'',
      Task.Dates = ([], [])\<rparr> = None"
    by (simp add: Marshal_Task_def sample_wire_def)
  have w: "Written NewRecorder = []"
    by (simp add: NewRecorder_def)
  show ?thesis
    using c m1 m2 w
      renderResponse_contract [OF c, of Marshal_struct "()" 200]
      renderResponse_contract [OF c,
        of "Marshal_Task (sample_wire\<lparr>Marshal_Dates := (\<lambda>d. None)\<rparr>)"
           "\<lparr>Task.ID = ''abc-123'', Task.Description = ''buy milk'', Task.Priority = ''low'',
             Task.Dates = ([], [])\<rparr>" 201]
    by simp
qed

lemma renderErrorResponse_no_Error:
  assumes "errors_As_Error err = None"
  shows "snd (renderErrorResponse ctx w msg err) =
           renderResponse Marshal_ErrorResponse w
             \<lparr>Error = ''internal error'', Validations = []\<rparr> StatusInternalServerError"
  using assms by (simp add: renderErrorResponse_def)

lemma Marshal_ErrorResponse_plain:
  "Marshal_ErrorResponse \<lparr>Error = msg, Validations = []\<rparr> = Some (JObject [(''error'', JString msg)])"
  by (simp add: Marshal_ErrorResponse_def)

lemma Marshal_ErrorResponse_validations:
  "v \<noteq> [] \<Longrightarrow> Marshal_ErrorResponse \<lparr>Error = msg, Validations = v\<rparr> =
     Some (JObject [(''error'', JString msg), (''validations'', Marshal_Errors v)])"
  by (simp add: Marshal_ErrorResponse_def)

text \<open>Claim C3. For every error on which \<^verbatim>\<open>errors.As\<close> finds no \<^verbatim>\<open>*internal.Error\<close>,
  that is every error that carries no domain classification, the error renderer answers
  status 500 and the body \<^verbatim>\<open>{"error":"internal error"}\<close>, whatever the caller's message and
  the error's own text are.\<close>

theorem renderErrorResponse_unclassified:
  assumes "errors_As_Error err = None" and "Code w = None"
  shows "Code (snd (renderErrorResponse ctx w msg err)) = Some 500 \<and>
         Written (snd (renderErrorResponse ctx w msg err)) =
           Written w @ [JObject [(''error'', JString ''internal error'')]]"
  using assms(2)
  by (simp add: renderErrorResponse_no_Error [OF assms(1)] renderResponse_Some
      Marshal_ErrorResponse_plain StatusInternalServerError_def)

theorem renderErrorResponse_unclassified_witness:
  "errors_As_Error (wrapError ''repository'' (errorString ''connection refused'')) = None \<and>
   Code NewRecorder = None \<and>
   Code (snd (renderErrorResponse [] NewRecorder ''find failed''
     (wrapError ''repository'' (errorString ''connection refused'')))) = Some 500 \<and>
   Written (snd (renderErrorResponse [] NewRecorder ''find failed''
     (wrapError ''repository'' (errorString ''connection refused'')))) =
     [JObject [(''error'', JString ''internal error'')]]"
proof -
  have e: "errors_As_Error (wrapError ''repository'' (errorString ''connection refused'')) = None"
    by simp
  have c: "Code NewRecorder = None"
    by (simp add: NewRecorder_def)
  have w: "Written NewRecorder = []"
    by (simp add: NewRecorder_def)
  show ?thesis
    using e c w renderErrorResponse_unclassified [OF e c, of "[]" "''find failed''"]
    by simp
qed

text \<open>Claim C10. On the nil error the downcast fails: the body's error text is
  "internal error", the caller's message is dropped, the status is 500, and no span is
  recorded.\<close>

theorem renderErrorResponse_nil:
  assumes "Code w = None"
  shows "fst (renderErrorResponse ctx w msg nil) = ctx \<and>
         Code (snd (renderErrorResponse ctx w msg nil)) = Some 500 \<and>
         Written (snd (renderErrorResponse ctx w msg nil)) =
           Written w @ [JObject [(''error'', JString ''internal error'')]]"
proof -
  have "errors_As_Error nil = None"
    by simp
  then have r: "snd (renderErrorResponse ctx w msg nil) =
      renderResponse Marshal_ErrorResponse w
        \<lparr>Error = ''internal error'', Validations = []\<rparr> StatusInternalServerError"
    by (rule renderErrorResponse_no_Error)
  have t: "fst (renderErrorResponse ctx w msg nil) = ctx"
    by (simp add: renderErrorResponse_def split: prod.split)
  show ?thesis
    using assms
    by (simp add: t r renderResponse_Some Marshal_ErrorResponse_plain
        StatusInternalServerError_def)
qed

theorem renderErrorResponse_nil_witness:
  "Code NewRecorder = None \<and>
   fst (renderErrorResponse [] NewRecorder ''update failed'' nil) = [] \<and>
   Code (snd (renderErrorResponse [] NewRecorder ''update failed'' nil)) = Some 500 \<and>
   Written (snd (renderErrorResponse [] NewRecorder ''update failed'' nil)) =
     [JObject [(''error'', JString ''internal error'')]]"
proof -
  have c: "Code NewRecorder = None"
    by (simp add: NewRecorder_def)
  have w: "Written NewRecorder = []"
    by (simp add: NewRecorder_def)
  show ?thesis
    using c w renderErrorResponse_nil [OF c, of "[]" "''update failed''"]
    by simp
qed

subsection \<open>Invalid arguments and their validations\<close>

text \<open>The mapping that \<^verbatim>\<open>errors.As(ierr, &verrors)\<close> finds from the classified error is
  the one found from the error itself.\<close>

lemma errors_As_Errors_orig:
  "errors_As_Error err = Some (imsg, icode, iorig) \<Longrightarrow> errors_As_Errors err = errors_As_Errors iorig"
  by (induction err) auto

lemma renderErrorResponse_InvalidArgument:
  assumes "errors_As_Error err = Some (imsg, ErrorCodeInvalidArgument, iorig)"
  shows "snd (renderErrorResponse ctx w msg err) =
           renderResponse Marshal_ErrorResponse w
             \<lparr>Error = msg,
              Validations = (case errors_As_Errors err of None \<Rightarrow> [] | Some v \<Rightarrow> v)\<rparr>
             StatusBadRequest"
  using assms errors_As_Errors_orig [OF assms]
  by (simp add: renderErrorResponse_def split: option.split)

text \<open>Claim C4, as amended. For every error classified as invalid-argument the error
  renderer answers status 400. When the error carries a mapping of field-level
  validation failures that is not empty, the body holds that mapping under the key
  \<^verbatim>\<open>validations\<close>, beside the caller's message under \<^verbatim>\<open>error\<close>; when the mapping it
  carries is empty, the body holds the message alone.\<close>

theorem renderErrorResponse_invalid_argument:
  assumes "errors_As_Error err = Some (imsg, ErrorCodeInvalidArgument, iorig)"
    and "Code w = None"
  shows "Code (snd (renderErrorResponse ctx w msg err)) = Some 400 \<and>
         (\<forall>v. errors_As_Errors err = Some v \<longrightarrow> v \<noteq> [] \<longrightarrow>
            Written (snd (renderErrorResponse ctx w msg err)) =
              Written w @ [JObject [(''error'', JString msg), (''validations'', Marshal_Errors v)]]) \<and>
         (errors_As_Errors err = Some [] \<longrightarrow>
            Written (snd (renderErrorResponse ctx w msg err)) =
              Written w @ [JObject [(''error'', JString msg)]])"
proof (intro conjI allI impI)
  show "Code (snd (renderErrorResponse ctx w msg err)) = Some 400"
    using assms(2)
    by (simp add: renderErrorResponse_InvalidArgument [OF assms(1)] renderResponse_Some
        Marshal_ErrorResponse_def StatusBadRequest_def)
next
  fix v
  assume "errors_As_Errors err = Some v" and "v \<noteq> []"
  then show "Written (snd (renderErrorResponse ctx w msg err)) =
      Written w @ [JObject [(''error'', JString msg), (''validations'', Marshal_Errors v)]]"
    using assms(2)
    by (simp add: renderErrorResponse_InvalidArgument [OF assms(1)] renderResponse_Some
        Marshal_ErrorResponse_validations)
next
  assume "errors_As_Errors err = Some []"
  then show "Written (snd (renderErrorResponse ctx w msg err)) =
      Written w @ [JObject [(''error'', JString msg)]]"
    using assms(2)
    by (simp add: renderErrorResponse_InvalidArgument [OF assms(1)] renderResponse_Some
        Marshal_ErrorResponse_plain)
qed

text \<open>The theorem at the spec's example, a failure \<^verbatim>\<open>{"description":"required"}\<close>
  wrapped by the service, and at an empty mapping.\<close>

theorem renderErrorResponse_invalid_argument_witness:
  "errors_As_Error (wrapError ''service''
     (internal_Error ''params.Validate'' ErrorCodeInvalidArgument
       (validation_Errors [(''description'', ''required'')])))
     = Some (''params.Validate'', ErrorCodeInvalidArgument,
         validation_Errors [(''description'', ''required'')]) \<and>
   errors_As_Errors (wrapError ''service''
     (internal_Error ''params.Validate'' ErrorCodeInvalidArgument
       (validation_Errors [(''description'', ''required'')])))
     = Some [(''description'', ''required'')] \<and>
   Code NewRecorder = None \<and>
   Code (snd (renderErrorResponse [] NewRecorder ''create failed'' (wrapError ''service''
     (internal_Error ''params.Validate'' ErrorCodeInvalidArgument
       (validation_Errors [(''description'', ''required'')]))))) = Some 400 \<and>
   Written (snd (renderErrorResponse [] NewRecorder ''create failed'' (wrapError ''service''
     (internal_Error ''params.Validate'' ErrorCodeInvalidArgument
       (validation_Errors [(''description'', ''required'')]))))) =
     [JObject [(''error'', JString ''create failed''),
               (''validations'', JObject [(''description'', JString ''required'')])]] \<and>
   errors_As_Errors (internal_Error ''params.Validate'' ErrorCodeInvalidArgument
     (validation_Errors [])) = Some [] \<and>
   Written (snd (renderErrorResponse [] NewRecorder ''create failed''
     (internal_Error ''params.Validate'' ErrorCodeInvalidArgument (validation_Errors [])))) =
     [JObject [(''error'', JString ''create failed'')]]"
proof -
  have e1: "errors_As_Error (wrapError ''service''
     (internal_Error ''params.Validate'' ErrorCodeInvalidArgument
       (validation_Errors [(''description'', ''required'')])))
     = Some (''params.Validate'', ErrorCodeInvalidArgument,
         validation_Errors [(''description'', ''required'')])"
    by simp
  have e2: "errors_As_Error (internal_Error ''params.Validate'' ErrorCodeInvalidArgument
     (validation_Errors [])) = Some (''params.Validate'', ErrorCodeInvalidArgument,
         validation_Errors [])"
    by simp
  have c: "Code NewRecorder = None"
    by (simp add: NewRecorder_def)
  have w: "Written NewRecorder = []"
    by (simp add: NewRecorder_def)
  show ?thesis
    using e1 c w
      renderErrorResponse_invalid_argument [OF e1 c, of "[]" "''create failed''"]
      renderErrorResponse_invalid_argument [OF e2 c, of "[]" "''create failed''"]
    by (simp add: Marshal_Errors_def)
qed

text \<open>Claim C4 as stated fails on an error that carries an empty mapping: the tag
  \<^verbatim>\<open>omitempty\<close> leaves the key \<^verbatim>\<open>validations\<close> out of the body.\<close>

theorem renderErrorResponse_empty_validations_counterexample:
  "errors_As_Error (internal_Error ''params.Validate'' ErrorCodeInvalidArgument
     (validation_Errors [])) = Some (''params.Validate'', ErrorCodeInvalidArgument,
         validation_Errors []) \<and>
   errors_As_Errors (internal_Error ''params.Validate'' ErrorCodeInvalidArgument
     (validation_Errors [])) = Some [] \<and>
   Code (snd (renderErrorResponse [] NewRecorder ''create failed''
     (internal_Error ''params.Validate'' ErrorCodeInvalidArgument (validation_Errors []))))
     = Some 400 \<and>
   map (\<lambda>body. member body ''validations'')
     (Written (snd (renderErrorResponse [] NewRecorder ''create failed''
       (internal_Error ''params.Validate'' ErrorCodeInvalidArgument (validation_Errors [])))))
     = [None]"
  by (simp add: renderErrorResponse_def renderResponse_def Marshal_ErrorResponse_def
      Header_Set_def WriteHeader_def Write_def NewRecorder_def Status_defs)

section \<open>Properties of the handlers\<close>

subsection \<open>The sample values\<close>

lemma readValue_open_brace: "readValue stateBeginValue [] ''{'' = None"
  by code_simp


lemma readValue_sample_create: "readValue stateBeginValue [] sample_create_body = Some []"
  by code_simp

lemma readValue_sample_update: "readValue stateBeginValue [] sample_update_body = Some []"
  by code_simp

lemma Decode_sample_create:
  "Decode_CreateTasksRequest sample_wire sample_create_body =
     Some \<lparr>CreateTasksRequest.Description = ''buy milk'', CreateTasksRequest.Priority = ''low'',
           CreateTasksRequest.Dates = ([], [])\<rparr>"
  by (simp add: Decode_CreateTasksRequest_def readValue_sample_create sample_wire_def)
    (simp add: sample_create_body_def)

lemma Decode_sample_update:
  "Decode_UpdateTasksRequest sample_wire sample_update_body =
     Some \<lparr>UpdateTasksRequest.Description = ''buy milk'', IsDone = True,
           UpdateTasksRequest.Priority = ''low'', UpdateTasksRequest.Dates = ([], [])\<rparr>"
  by (simp add: Decode_UpdateTasksRequest_def readValue_sample_update sample_wire_def)
    (simp add: sample_update_body_def)

lemma Decode_open_brace:
  "Decode_CreateTasksRequest sample_wire ''{'' = None"
  "Decode_UpdateTasksRequest sample_wire ''{'' = None"
  unfolding Decode_CreateTasksRequest_def Decode_UpdateTasksRequest_def readValue_open_brace
  by simp_all


lemma sample_request_simps:
  "Body (sample_request b) = b"
  "Context (sample_request b) = ()"
  "BodyClosed (sample_request b) = False"
  "Vars_id (sample_request b) = ''123e4567-e89b-12d3-a456-426614174000''"
  by (simp_all add: sample_request_def Vars_id_def)

lemma NewRecorder_simps:
  "Code NewRecorder = None" "Written NewRecorder = []" "Header NewRecorder = []"
  by (simp_all add: NewRecorder_def)

subsection \<open>The paths of the handlers\<close>

lemma create_decode_error:
  "Decode_CreateTasksRequest env (Body r) = None \<Longrightarrow>
   create env renderError svc w r = (renderError w ''invalid request'' StatusBadRequest, r, [])"
  by (simp add: create_def)

lemma update_decode_error:
  "Decode_UpdateTasksRequest env (Body r) = None \<Longrightarrow>
   update env renderError svc w r = (renderError w ''invalid request'' StatusBadRequest, r, [])"
  by (simp add: update_def)

lemma create_service_ok:
  assumes "Decode_CreateTasksRequest env (Body r) = Some req"
    and "Create svc (Context r) (CreateTasksRequest.Description req)
           (Priority_Convert env (CreateTasksRequest.Priority req))
           (Dates_Convert env (CreateTasksRequest.Dates req)) = (t, nil)"
  shows "create env renderError svc w r =
     (renderResponse (Marshal_CreateTasksResponse env) w
        \<lparr>CreateTasksResponse.Task =
           \<lparr>Task.ID = internal_Task.ID t, Task.Description = internal_Task.Description t,
            Task.Priority = NewPriority env (internal_Task.Priority t),
            Task.Dates = NewDates env (internal_Task.Dates t)\<rparr>\<rparr> StatusCreated,
      r\<lparr>BodyClosed := True\<rparr>,
      [CreateCall (Context r) (CreateTasksRequest.Description req)
         (Priority_Convert env (CreateTasksRequest.Priority req))
         (Dates_Convert env (CreateTasksRequest.Dates req))])"
  using assms by (simp add: create_def)

lemma update_service_ok:
  assumes "Decode_UpdateTasksRequest env (Body r) = Some req"
    and "Update svc (Context r) (Vars_id r) (UpdateTasksRequest.Description req)
           (Priority_Convert env (UpdateTasksRequest.Priority req))
           (Dates_Convert env (UpdateTasksRequest.Dates req)) (IsDone req) = nil"
  shows "update env renderError svc w r =
     (renderResponse Marshal_struct w () StatusOK,
      r\<lparr>BodyClosed := True\<rparr>,
      [UpdateCall (Context r) (Vars_id r) (UpdateTasksRequest.Description req)
         (Priority_Convert env (UpdateTasksRequest.Priority req))
         (Dates_Convert env (UpdateTasksRequest.Dates req)) (IsDone req)])"
  using assms by (simp add: update_def Let_def)

lemma task_service_error:
  assumes "TaskService.Task svc (Context r) (Vars_id r) = (t, err)" and "err \<noteq> nil"
  shows "task env renderError svc w r =
     (renderError w ''find failed'' StatusInternalServerError, r,
      [TaskCall (Context r) (Vars_id r)])"
  using assms by (simp add: task_def)

lemma Marshal_CreateTasksResponse_Some:
  assumes "Marshal_Priority env (Task.Priority t) = Some p"
    and "Marshal_Dates env (Task.Dates t) = Some d"
  shows "Marshal_CreateTasksResponse env \<lparr>CreateTasksResponse.Task = t\<rparr> =
     Some (JObject [(''task'',
        JObject [(''id'', JString (Task.ID t)), (''description'', JString (Task.Description t)),
                 (''priority'', p), (''dates'', d)])])"
  using assms by (simp add: Marshal_CreateTasksResponse_def Marshal_Task_def)

lemma Marshal_CreateTasksResponse_None:
  assumes "Marshal_Priority env (Task.Priority t) = None \<or> Marshal_Dates env (Task.Dates t) = None"
  shows "Marshal_CreateTasksResponse env \<lparr>CreateTasksResponse.Task = t\<rparr> = None"
  using assms by (auto simp: Marshal_CreateTasksResponse_def Marshal_Task_def split: option.split)


subsection \<open>Rejected bodies\<close>




subsection \<open>A failed fetch\<close>

text \<open>Claim C1: a fetch whose service call fails with a not-found error answers 404. At
  such an error the fetch handler hands the error renderer the constant status 500 and
  the message "find failed", and not the error: what it answers is what the renderer
  answers to these, whatever the renderer is. The renderer of rest.go, given the error,
  answers 404.\<close>

theorem task_not_found_status:
  "errors_As_Error (snd (TaskService.Task
      (failing_service (internal_Error ''task not found'' ErrorCodeNotFound nil))
      () ''123e4567-e89b-12d3-a456-426614174000''))
     = Some (''task not found'', ErrorCodeNotFound, nil) \<and>
   fst (task sample_wire renderError
     (failing_service (internal_Error ''task not found'' ErrorCodeNotFound nil))
     w (sample_request [])) = renderError w ''find failed'' 500 \<and>
   snd (snd (task sample_wire renderError
     (failing_service (internal_Error ''task not found'' ErrorCodeNotFound nil))
     w (sample_request []))) = [TaskCall () ''123e4567-e89b-12d3-a456-426614174000''] \<and>
   Code (snd (renderErrorResponse ctx NewRecorder ''find failed''
     (internal_Error ''task not found'' ErrorCodeNotFound nil))) = Some 404"
proof -
  have e: "TaskService.Task
      (failing_service (internal_Error ''task not found'' ErrorCodeNotFound nil))
      (Context (sample_request [])) (Vars_id (sample_request [])) =
    (\<lparr>internal_Task.ID = [], internal_Task.Description = [], internal_Task.Priority = 0,
      internal_Task.Dates = ([], [])\<rparr>,
     internal_Error ''task not found'' ErrorCodeNotFound nil)"
    by (simp add: failing_service_def)
  have t: "task sample_wire renderError
     (failing_service (internal_Error ''task not found'' ErrorCodeNotFound nil))
     w (sample_request []) =
    (renderError w ''find failed'' StatusInternalServerError, sample_request [],
     [TaskCall (Context (sample_request [])) (Vars_id (sample_request []))])"
    by (rule task_service_error [OF e]) simp
  have r: "Code (snd (renderErrorResponse ctx NewRecorder ''find failed''
     (internal_Error ''task not found'' ErrorCodeNotFound nil))) = Some 404"
    by (simp add: renderErrorResponse_def renderResponse_Some Marshal_ErrorResponse_plain
        NewRecorder_simps StatusNotFound_def)
  show ?thesis
    unfolding t
    by (simp add: r failing_service_def sample_request_simps StatusInternalServerError_def)
qed


subsection \<open>Successful requests\<close>

text \<open>Claim C5, as amended. For every create request whose body decodes and whose service
  call succeeds returning a task, the response is built from that task. When it
  serializes, the response has status 201 and the body
  \<^verbatim>\<open>{"task":{"id","description","priority","dates"}}\<close>, where the id and the description
  are those of the returned task and the priority and the dates are those of the
  returned task, converted by \<^verbatim>\<open>NewPriority\<close> and \<^verbatim>\<open>NewDates\<close>. When it does not
  serialize, the response has status 500 and no body.\<close>

theorem create_success:
  assumes "Decode_CreateTasksRequest env (Body r) = Some req"
    and "Create svc (Context r) (CreateTasksRequest.Description req)
           (Priority_Convert env (CreateTasksRequest.Priority req))
           (Dates_Convert env (CreateTasksRequest.Dates req)) = (t, nil)"
    and "Code w = None"
  shows "(\<forall>priority dates.
            Marshal_Priority env (NewPriority env (internal_Task.Priority t)) = Some priority \<longrightarrow>
            Marshal_Dates env (NewDates env (internal_Task.Dates t)) = Some dates \<longrightarrow>
            Code (fst (create env renderError svc w r)) = Some 201 \<and>
            Written (fst (create env renderError svc w r)) =
              Written w @
              [JObject [(''task'',
                 JObject [(''id'', JString (internal_Task.ID t)),
                          (''description'', JString (internal_Task.Description t)),
                          (''priority'', priority), (''dates'', dates)])]]) \<and>
         (Marshal_Priority env (NewPriority env (internal_Task.Priority t)) = None \<or>
          Marshal_Dates env (NewDates env (internal_Task.Dates t)) = None \<longrightarrow>
            Code (fst (create env renderError svc w r)) = Some 500 \<and>
            Written (fst (create env renderError svc w r)) = Written w)"
proof (intro conjI allI impI)
  fix priority dates
  assume "Marshal_Priority env (NewPriority env (internal_Task.Priority t)) = Some priority"
    and "Marshal_Dates env (NewDates env (internal_Task.Dates t)) = Some dates"
  then have m: "Marshal_CreateTasksResponse env
      \<lparr>CreateTasksResponse.Task =
         \<lparr>Task.ID = internal_Task.ID t, Task.Description = internal_Task.Description t,
          Task.Priority = NewPriority env (internal_Task.Priority t),
          Task.Dates = NewDates env (internal_Task.Dates t)\<rparr>\<rparr> =
      Some (JObject [(''task'',
        JObject [(''id'', JString (internal_Task.ID t)),
                 (''description'', JString (internal_Task.Description t)),
                 (''priority'', priority), (''dates'', dates)])])"
    by (simp add: Marshal_CreateTasksResponse_Some)
  show "Code (fst (create env renderError svc w r)) = Some 201"
    using m assms(3)
    by (simp add: create_service_ok [OF assms(1,2)] renderResponse_Some StatusCreated_def)
  show "Written (fst (create env renderError svc w r)) =
      Written w @
      [JObject [(''task'',
         JObject [(''id'', JString (internal_Task.ID t)),
                  (''description'', JString (internal_Task.Description t)),
                  (''priority'', priority), (''dates'', dates)])]]"
    using m assms(3)
    by (simp add: create_service_ok [OF assms(1,2)] renderResponse_Some)
next
  assume "Marshal_Priority env (NewPriority env (internal_Task.Priority t)) = None \<or>
    Marshal_Dates env (NewDates env (internal_Task.Dates t)) = None"
  then have m: "Marshal_CreateTasksResponse env
      \<lparr>CreateTasksResponse.Task =
         \<lparr>Task.ID = internal_Task.ID t, Task.Description = internal_Task.Description t,
          Task.Priority = NewPriority env (internal_Task.Priority t),
          Task.Dates = NewDates env (internal_Task.Dates t)\<rparr>\<rparr> = None"
    by (simp add: Marshal_CreateTasksResponse_None)
  show "Code (fst (create env renderError svc w r)) = Some 500"
    using m assms(3)
    by (simp add: create_service_ok [OF assms(1,2)] renderResponse_None
        StatusInternalServerError_def)
  show "Written (fst (create env renderError svc w r)) = Written w"
    using m assms(3)
    by (simp add: create_service_ok [OF assms(1,2)] renderResponse_None)
qed

lemma Decode_sample_create_no_dates:
  "Decode_CreateTasksRequest (sample_wire\<lparr>Marshal_Dates := (\<lambda>d. None)\<rparr>) sample_create_body =
     Some \<lparr>CreateTasksRequest.Description = ''buy milk'', CreateTasksRequest.Priority = ''low'',
           CreateTasksRequest.Dates = ([], [])\<rparr>"
  unfolding Decode_CreateTasksRequest_def readValue_sample_create
  by (simp add: sample_wire_def) (simp add: sample_create_body_def)

lemma sample_Create:
  "Create echo_service (Context (sample_request b))
      (CreateTasksRequest.Description \<lparr>CreateTasksRequest.Description = ''buy milk'',
         CreateTasksRequest.Priority = ''low'', CreateTasksRequest.Dates = ([], [])\<rparr>)
      (Priority_Convert sample_wire (CreateTasksRequest.Priority
         \<lparr>CreateTasksRequest.Description = ''buy milk'',
         CreateTasksRequest.Priority = ''low'', CreateTasksRequest.Dates = ([], [])\<rparr>))
      (Dates_Convert sample_wire (CreateTasksRequest.Dates
         \<lparr>CreateTasksRequest.Description = ''buy milk'',
         CreateTasksRequest.Priority = ''low'', CreateTasksRequest.Dates = ([], [])\<rparr>)) =
     (\<lparr>internal_Task.ID = ''abc-123'', internal_Task.Description = ''buy milk'',
       internal_Task.Priority = 1, internal_Task.Dates = ([], [])\<rparr>, nil)"
  "Create trimming_service (Context (sample_request b))
      (CreateTasksRequest.Description \<lparr>CreateTasksRequest.Description = ''buy milk'',
         CreateTasksRequest.Priority = ''low'', CreateTasksRequest.Dates = ([], [])\<rparr>)
      (Priority_Convert sample_wire (CreateTasksRequest.Priority
         \<lparr>CreateTasksRequest.Description = ''buy milk'',
         CreateTasksRequest.Priority = ''low'', CreateTasksRequest.Dates = ([], [])\<rparr>))
      (Dates_Convert sample_wire (CreateTasksRequest.Dates
         \<lparr>CreateTasksRequest.Description = ''buy milk'',
         CreateTasksRequest.Priority = ''low'', CreateTasksRequest.Dates = ([], [])\<rparr>)) =
     (\<lparr>internal_Task.ID = ''abc-123'', internal_Task.Description = ''milk'',
       internal_Task.Priority = 1, internal_Task.Dates = ([], [])\<rparr>, nil)"
  "Create echo_service (Context (sample_request b))
      (CreateTasksRequest.Description \<lparr>CreateTasksRequest.Description = ''buy milk'',
         CreateTasksRequest.Priority = ''low'', CreateTasksRequest.Dates = ([], [])\<rparr>)
      (Priority_Convert (sample_wire\<lparr>Marshal_Dates := (\<lambda>d. None)\<rparr>)
         (CreateTasksRequest.Priority
         \<lparr>CreateTasksRequest.Description = ''buy milk'',
         CreateTasksRequest.Priority = ''low'', CreateTasksRequest.Dates = ([], [])\<rparr>))
      (Dates_Convert (sample_wire\<lparr>Marshal_Dates := (\<lambda>d. None)\<rparr>) (CreateTasksRequest.Dates
         \<lparr>CreateTasksRequest.Description = ''buy milk'',
         CreateTasksRequest.Priority = ''low'', CreateTasksRequest.Dates = ([], [])\<rparr>)) =
     (\<lparr>internal_Task.ID = ''abc-123'', internal_Task.Description = ''buy milk'',
       internal_Task.Priority = 1, internal_Task.Dates = ([], [])\<rparr>, nil)"
  by (simp_all add: echo_service_def trimming_service_def sample_wire_def)

lemma sample_Marshal:
  "Marshal_Priority sample_wire (NewPriority sample_wire (internal_Task.Priority
      \<lparr>internal_Task.ID = i, internal_Task.Description = d,
       internal_Task.Priority = (1::nat), internal_Task.Dates = ([]::string, []::string)\<rparr>))
      = Some (JString ''low'')"
  "Marshal_Dates sample_wire (NewDates sample_wire (internal_Task.Dates
      \<lparr>internal_Task.ID = i, internal_Task.Description = d,
       internal_Task.Priority = (1::nat), internal_Task.Dates = ([]::string, []::string)\<rparr>))
      = Some (JObject [(''start'', JString []), (''due'', JString [])])"
  "Marshal_Dates (sample_wire\<lparr>Marshal_Dates := (\<lambda>d. None)\<rparr>)
     (NewDates (sample_wire\<lparr>Marshal_Dates := (\<lambda>d. None)\<rparr>) (internal_Task.Dates
      \<lparr>internal_Task.ID = i, internal_Task.Description = d,
       internal_Task.Priority = (1::nat), internal_Task.Dates = ([]::string, []::string)\<rparr>))
      = None"
  by (simp_all add: sample_wire_def)

text \<open>The theorem at the sample request with the service that returns what it is given,
  once with encoders that succeed and once with an encoder of dates that fails.\<close>

theorem create_success_witness:
  "Decode_CreateTasksRequest sample_wire (Body (sample_request sample_create_body)) =
     Some \<lparr>CreateTasksRequest.Description = ''buy milk'', CreateTasksRequest.Priority = ''low'',
           CreateTasksRequest.Dates = ([], [])\<rparr> \<and>
   Code NewRecorder = None \<and>
   Code (fst (create sample_wire (\<lambda>w msg status. WriteHeader w status) echo_service NewRecorder
     (sample_request sample_create_body))) = Some 201 \<and>
   Written (fst (create sample_wire (\<lambda>w msg status. WriteHeader w status) echo_service
     NewRecorder (sample_request sample_create_body)))
     = [JObject [(''task'',
          JObject [(''id'', JString ''abc-123''), (''description'', JString ''buy milk''),
                   (''priority'', JString ''low''),
                   (''dates'', JObject [(''start'', JString []), (''due'', JString [])])])]] \<and>
   Code (fst (create (sample_wire\<lparr>Marshal_Dates := (\<lambda>d. None)\<rparr>)
     (\<lambda>w msg status. WriteHeader w status) echo_service NewRecorder
     (sample_request sample_create_body))) = Some 500 \<and>
   Written (fst (create (sample_wire\<lparr>Marshal_Dates := (\<lambda>d. None)\<rparr>)
     (\<lambda>w msg status. WriteHeader w status) echo_service NewRecorder
     (sample_request sample_create_body))) = []"
proof -
  have d: "Decode_CreateTasksRequest sample_wire (Body (sample_request sample_create_body)) =
     Some \<lparr>CreateTasksRequest.Description = ''buy milk'', CreateTasksRequest.Priority = ''low'',
           CreateTasksRequest.Dates = ([], [])\<rparr>"
    by (simp only: sample_request_simps Decode_sample_create)
  have d': "Decode_CreateTasksRequest (sample_wire\<lparr>Marshal_Dates := (\<lambda>d. None)\<rparr>)
       (Body (sample_request sample_create_body)) =
     Some \<lparr>CreateTasksRequest.Description = ''buy milk'', CreateTasksRequest.Priority = ''low'',
           CreateTasksRequest.Dates = ([], [])\<rparr>"
    by (simp only: sample_request_simps Decode_sample_create_no_dates)
  note c = NewRecorder_simps(1)
  note ok = create_success [OF d sample_Create(1) c,
      where renderError = "\<lambda>w msg status. WriteHeader w status"]
  note ko = create_success [OF d' sample_Create(3) c,
      where renderError = "\<lambda>w msg status. WriteHeader w status"]
  from ok sample_Marshal(1,2) [of "''abc-123''" "''buy milk''"]
  have a: "Code (fst (create sample_wire (\<lambda>w msg status. WriteHeader w status) echo_service
      NewRecorder (sample_request sample_create_body))) = Some 201 \<and>
    Written (fst (create sample_wire (\<lambda>w msg status. WriteHeader w status) echo_service
      NewRecorder (sample_request sample_create_body)))
      = Written NewRecorder @ [JObject [(''task'',
          JObject [(''id'', JString (internal_Task.ID
                     \<lparr>internal_Task.ID = ''abc-123'', internal_Task.Description = ''buy milk'',
                      internal_Task.Priority = (1::nat),
                      internal_Task.Dates = ([]::string, []::string)\<rparr>)),
                   (''description'', JString (internal_Task.Description
                     \<lparr>internal_Task.ID = ''abc-123'', internal_Task.Description = ''buy milk'',
                      internal_Task.Priority = (1::nat),
                      internal_Task.Dates = ([]::string, []::string)\<rparr>)),
                   (''priority'', JString ''low''),
                   (''dates'', JObject [(''start'', JString []), (''due'', JString [])])])]]"
    by blast
  from ko sample_Marshal(3) [of "''abc-123''" "''buy milk''"]
  have b: "Code (fst (create (sample_wire\<lparr>Marshal_Dates := (\<lambda>d. None)\<rparr>)
      (\<lambda>w msg status. WriteHeader w status) echo_service NewRecorder
      (sample_request sample_create_body))) = Some 500 \<and>
    Written (fst (create (sample_wire\<lparr>Marshal_Dates := (\<lambda>d. None)\<rparr>)
      (\<lambda>w msg status. WriteHeader w status) echo_service NewRecorder
      (sample_request sample_create_body))) = Written NewRecorder"
    by blast
  from d c a b show ?thesis
    by (simp add: NewRecorder_simps)
qed


text \<open>Claim C5 as stated fails twice. On a service that returns a task whose description
  is not the one it was given, the response holds the service's description, not the
  request's. And where the dates of the returned task do not serialize, the status is
  500, not 201, and there is no body.\<close>

theorem create_mirrors_service_counterexample:
  "Decode_CreateTasksRequest sample_wire (Body (sample_request sample_create_body)) =
     Some \<lparr>CreateTasksRequest.Description = ''buy milk'', CreateTasksRequest.Priority = ''low'',
           CreateTasksRequest.Dates = ([], [])\<rparr> \<and>
   Create trimming_service () ''buy milk'' 1 ([], []) =
     (\<lparr>internal_Task.ID = ''abc-123'', internal_Task.Description = ''milk'',
       internal_Task.Priority = 1, internal_Task.Dates = ([], [])\<rparr>, nil) \<and>
   Code (fst (create sample_wire (\<lambda>w msg status. WriteHeader w status) trimming_service
     NewRecorder (sample_request sample_create_body))) = Some 201 \<and>
   Written (fst (create sample_wire (\<lambda>w msg status. WriteHeader w status) trimming_service
     NewRecorder (sample_request sample_create_body)))
     = [JObject [(''task'',
          JObject [(''id'', JString ''abc-123''), (''description'', JString ''milk''),
                   (''priority'', JString ''low''),
                   (''dates'', JObject [(''start'', JString []), (''due'', JString [])])])]] \<and>
   ''milk'' \<noteq> ''buy milk'' \<and>
   Create echo_service () ''buy milk'' 1 ([], []) =
     (\<lparr>internal_Task.ID = ''abc-123'', internal_Task.Description = ''buy milk'',
       internal_Task.Priority = 1, internal_Task.Dates = ([], [])\<rparr>, nil) \<and>
   Code (fst (create (sample_wire\<lparr>Marshal_Dates := (\<lambda>d. None)\<rparr>)
     (\<lambda>w msg status. WriteHeader w status) echo_service NewRecorder
     (sample_request sample_create_body))) = Some 500 \<and>
   Written (fst (create (sample_wire\<lparr>Marshal_Dates := (\<lambda>d. None)\<rparr>)
     (\<lambda>w msg status. WriteHeader w status) echo_service NewRecorder
     (sample_request sample_create_body))) = []"
proof -
  have d: "Decode_CreateTasksRequest sample_wire (Body (sample_request sample_create_body)) =
     Some \<lparr>CreateTasksRequest.Description = ''buy milk'', CreateTasksRequest.Priority = ''low'',
           CreateTasksRequest.Dates = ([], [])\<rparr>"
    by (simp only: sample_request_simps Decode_sample_create)
  have d': "Decode_CreateTasksRequest (sample_wire\<lparr>Marshal_Dates := (\<lambda>d. None)\<rparr>)
       (Body (sample_request sample_create_body)) =
     Some \<lparr>CreateTasksRequest.Description = ''buy milk'', CreateTasksRequest.Priority = ''low'',
           CreateTasksRequest.Dates = ([], [])\<rparr>"
    by (simp only: sample_request_simps Decode_sample_create_no_dates)
  have s: "Create trimming_service () ''buy milk'' 1 ([], []) =
     (\<lparr>internal_Task.ID = ''abc-123'', internal_Task.Description = ''milk'',
       internal_Task.Priority = 1, internal_Task.Dates = ([], [])\<rparr>, nil)"
    "Create echo_service () ''buy milk'' 1 ([], []) =
     (\<lparr>internal_Task.ID = ''abc-123'', internal_Task.Description = ''buy milk'',
       internal_Task.Priority = 1, internal_Task.Dates = ([], [])\<rparr>, nil)"
    by (simp_all add: trimming_service_def echo_service_def)
  have m: "Marshal_CreateTasksResponse sample_wire
      \<lparr>CreateTasksResponse.Task =
         \<lparr>Task.ID = ''abc-123'', Task.Description = ''milk'', Task.Priority = ''low'',
          Task.Dates = ([], [])\<rparr>\<rparr> =
     Some (JObject [(''task'',
          JObject [(''id'', JString ''abc-123''), (''description'', JString ''milk''),
                   (''priority'', JString ''low''),
                   (''dates'', JObject [(''start'', JString []), (''due'', JString [])])])])"
    by (simp add: Marshal_CreateTasksResponse_def Marshal_Task_def sample_wire_def)
  have n: "Marshal_CreateTasksResponse (sample_wire\<lparr>Marshal_Dates := (\<lambda>d. None)\<rparr>)
      \<lparr>CreateTasksResponse.Task =
         \<lparr>Task.ID = ''abc-123'', Task.Description = ''buy milk'', Task.Priority = ''low'',
          Task.Dates = ([], [])\<rparr>\<rparr> = None"
    by (simp add: Marshal_CreateTasksResponse_def Marshal_Task_def sample_wire_def)
  have p: "NewPriority sample_wire (Suc 0) = ''low''"
    "NewDates sample_wire ([], []) = ([], [])"
    "NewPriority (sample_wire\<lparr>Marshal_Dates := (\<lambda>d. None)\<rparr>) (Suc 0) = ''low''"
    "NewDates (sample_wire\<lparr>Marshal_Dates := (\<lambda>d. None)\<rparr>) ([], []) = ([], [])"
    by (simp_all add: sample_wire_def)
  show ?thesis
    using d s
    by (simp add: create_service_ok [OF d sample_Create(2)]
        create_service_ok [OF d' sample_Create(3)] p m n renderResponse_Some
        renderResponse_None NewRecorder_simps StatusCreated_def StatusInternalServerError_def)
qed

text \<open>Claim C6. For every update request whose body decodes and whose service call
  succeeds, on a writer to which nothing has been written, the handler answers status
  200 and the body is exactly the empty object \<^verbatim>\<open>{}\<close>.\<close>

theorem update_success:
  assumes "Decode_UpdateTasksRequest env (Body r) = Some req"
    and "Update svc (Context r) (Vars_id r) (UpdateTasksRequest.Description req)
           (Priority_Convert env (UpdateTasksRequest.Priority req))
           (Dates_Convert env (UpdateTasksRequest.Dates req)) (IsDone req) = nil"
    and "Code w = None" and "Written w = []"
  shows "Code (fst (update env renderError svc w r)) = Some 200 \<and>
         Written (fst (update env renderError svc w r)) = [JObject []]"
  using assms(3,4)
  by (simp add: update_service_ok [OF assms(1,2)] renderResponse_Some Marshal_struct_def
      StatusOK_def)

theorem update_success_witness:
  "Decode_UpdateTasksRequest sample_wire (Body (sample_request sample_update_body)) =
     Some \<lparr>UpdateTasksRequest.Description = ''buy milk'', IsDone = True,
           UpdateTasksRequest.Priority = ''low'', UpdateTasksRequest.Dates = ([], [])\<rparr> \<and>
   Update echo_service () ''123e4567-e89b-12d3-a456-426614174000'' ''buy milk'' 1 ([], []) True
     = nil \<and>
   Code NewRecorder = None \<and> Written NewRecorder = [] \<and>
   Code (fst (update sample_wire (\<lambda>w msg status. WriteHeader w status) echo_service NewRecorder
     (sample_request sample_update_body))) = Some 200 \<and>
   Written (fst (update sample_wire (\<lambda>w msg status. WriteHeader w status) echo_service
     NewRecorder (sample_request sample_update_body))) = [JObject []]"
proof -
  have d: "Decode_UpdateTasksRequest sample_wire (Body (sample_request sample_update_body)) =
     Some \<lparr>UpdateTasksRequest.Description = ''buy milk'', IsDone = True,
           UpdateTasksRequest.Priority = ''low'', UpdateTasksRequest.Dates = ([], [])\<rparr>"
    by (simp only: sample_request_simps Decode_sample_update)
  have u: "Update echo_service (Context (sample_request sample_update_body))
      (Vars_id (sample_request sample_update_body))
      (UpdateTasksRequest.Description \<lparr>UpdateTasksRequest.Description = ''buy milk'',
         IsDone = True, UpdateTasksRequest.Priority = ''low'',
         UpdateTasksRequest.Dates = ([], [])\<rparr>)
      (Priority_Convert sample_wire (UpdateTasksRequest.Priority
         \<lparr>UpdateTasksRequest.Description = ''buy milk'',
         IsDone = True, UpdateTasksRequest.Priority = ''low'',
         UpdateTasksRequest.Dates = ([], [])\<rparr>))
      (Dates_Convert sample_wire (UpdateTasksRequest.Dates
         \<lparr>UpdateTasksRequest.Description = ''buy milk'',
         IsDone = True, UpdateTasksRequest.Priority = ''low'',
         UpdateTasksRequest.Dates = ([], [])\<rparr>))
      (IsDone \<lparr>UpdateTasksRequest.Description = ''buy milk'',
         IsDone = True, UpdateTasksRequest.Priority = ''low'',
         UpdateTasksRequest.Dates = ([], [])\<rparr>) = nil"
    by (simp add: echo_service_def)
  have u': "Update echo_service () ''123e4567-e89b-12d3-a456-426614174000'' ''buy milk'' 1
      ([], []) True = nil"
    by (simp add: echo_service_def)
  note c = NewRecorder_simps(1)
  note w = NewRecorder_simps(2)
  from d u' c w
    update_success [OF d u c w, where renderError = "\<lambda>w msg status. WriteHeader w status"]
  show ?thesis
    by blast
qed

subsection \<open>Closing the body\<close>

text \<open>Claim C7: the request body is closed on every exit path after the decode attempt.
  The handlers return on a failed decode before they reach
  \<^verbatim>\<open>defer r.Body.Close()\<close>: on a body that the decoder rejects, the body is still open
  when \<^verbatim>\<open>create\<close> and \<^verbatim>\<open>update\<close> return.\<close>

theorem decode_failure_leaves_body_open:
  "Decode_CreateTasksRequest sample_wire (Body (sample_request ''{'')) = None \<and>
   BodyClosed (fst (snd (create sample_wire renderError echo_service NewRecorder
     (sample_request ''{'')))) = False \<and>
   Decode_UpdateTasksRequest sample_wire (Body (sample_request ''{'')) = None \<and>
   BodyClosed (fst (snd (update sample_wire renderError echo_service NewRecorder
     (sample_request ''{'')))) = False"
proof -
  have d: "Decode_CreateTasksRequest sample_wire (Body (sample_request ''{'')) = None"
    "Decode_UpdateTasksRequest sample_wire (Body (sample_request ''{'')) = None"
    by (simp_all only: sample_request_simps Decode_open_brace)
  show ?thesis
    by (simp add: create_decode_error [OF d(1)] update_decode_error [OF d(2)]
        sample_request_simps Decode_open_brace)
qed

text \<open>On the paths after a successful decode the body is closed, whether the service
  call fails or not.\<close>

lemma decoded_body_closed:
  "Decode_CreateTasksRequest env (Body r) = Some req \<Longrightarrow>
   BodyClosed (fst (snd (create env renderError svc w r)))"
  "Decode_UpdateTasksRequest env (Body r) = Some ureq \<Longrightarrow>
   BodyClosed (fst (snd (update env renderError svc w r)))"
  by (simp_all add: create_def update_def Let_def split: prod.split)

section \<open>Properties of the registration\<close>

lemma match_times_eq:
  "match_times a n s =
     (if n \<le> length s \<and> list_all (atom_matches a) (take n s) then Some (drop n s) else None)"
proof (induction n arbitrary: s)
  case 0
  show ?case by simp
next
  case (Suc n)
  show ?case
    by (cases s) (simp_all add: Suc.IH)
qed

lemma of_char_cases:
  fixes c :: char
  assumes "lo \<le> (of_char c :: nat)" and "(of_char c :: nat) < hi"
  shows "c \<in> set (map char_of [lo..<hi])"
proof -
  have "c = char_of (of_char c :: nat)"
    by simp
  moreover have "(of_char c :: nat) \<in> set [lo..<hi]"
    using assms by simp
  ultimately show ?thesis
    unfolding set_map by (rule image_eqI)
qed

lemma digits: "map char_of [48..<58::nat] = ''0123456789''"
  by code_simp

lemma lower_hex: "map char_of [97..<103::nat] = ''abcdef''"
  by code_simp

lemma upper_hex: "map char_of [65..<71::nat] = ''ABCDEF''"
  by code_simp

lemma hex_class_digit: "atom_matches hex_class c = hex_digit c"
proof
  assume "atom_matches hex_class c"
  then consider "48 \<le> (of_char c :: nat) \<and> (of_char c :: nat) < 58"
    | "97 \<le> (of_char c :: nat) \<and> (of_char c :: nat) < 103"
    | "65 \<le> (of_char c :: nat) \<and> (of_char c :: nat) < 71"
    by (auto simp: hex_class_def)
  then show "hex_digit c"
  proof cases
    case 1
    then have "c \<in> set (map char_of [48..<58::nat])"
      by (simp only: of_char_cases)
    then show ?thesis
      unfolding digits by (auto simp: hex_digit_def)
  next
    case 2
    then have "c \<in> set (map char_of [97..<103::nat])"
      by (simp only: of_char_cases)
    then show ?thesis
      unfolding lower_hex by (auto simp: hex_digit_def)
  next
    case 3
    then have "c \<in> set (map char_of [65..<71::nat])"
      by (simp only: of_char_cases)
    then show ?thesis
      unfolding upper_hex by (auto simp: hex_digit_def)
  qed
next
  assume "hex_digit c"
  then show "atom_matches hex_class c"
    by (auto simp: hex_digit_def hex_class_def)
qed

lemma list_all_hex: "list_all (atom_matches hex_class) s = list_all hex_digit s"
  by (simp add: hex_class_digit [abs_def])

lemma list_all_Lit:
  "n < length s \<Longrightarrow> list_all (atom_matches (Lit l)) (take (Suc 0) (drop n s)) = (s ! n = l)"
  by (simp add: Cons_nth_drop_Suc [symmetric])

text \<open>The pattern matches the whole of a string exactly when the string has the shape of
  a UUID.\<close>

lemma uuidRegEx_shape: "(match_prefix uuidRegEx s = Some []) = uuid_shape s"
proof (cases "length s = 36")
  case True
  then show ?thesis
    by (simp add: uuidRegEx_def match_times_eq list_all_hex list_all_Lit uuid_shape_def)
next
  case False
  then show ?thesis
    by (auto simp: uuidRegEx_def match_times_eq uuid_shape_def split: if_splits)
qed


lemma match_path_tasks: "match_path [Static ''/tasks''] (''/tasks/'' @ ident) = None"
  by simp

lemma match_path_id:
  "match_path [Static ''/tasks/'', Variable ''id'' uuidRegEx] (''/tasks/'' @ ident) =
     (if uuid_shape ident then Some [(''id'', ident)] else None)"
proof (cases "match_prefix uuidRegEx ident")
  case None
  then show ?thesis
    using uuidRegEx_shape [of ident] by simp
next
  case (Some rest)
  then show ?thesis
    using uuidRegEx_shape [of ident] by (cases rest) auto
qed

lemma Register_append:
  "Register r = r @
     [\<lparr>template = [Static ''/tasks''], handler = t_create, methods = [''POST'']\<rparr>,
      \<lparr>template = [Static ''/tasks/'', Variable ''id'' uuidRegEx], handler = t_task,
        methods = [''GET'']\<rparr>,
      \<lparr>template = [Static ''/tasks/'', Variable ''id'' uuidRegEx], handler = t_update,
        methods = [''PUT'']\<rparr>]"
  by (simp add: Register_def HandleFunc_Methods_def MethodGet_def MethodPost_def MethodPut_def)

lemmas Register_empty = Register_append [of "[]", simplified]

text \<open>Claim C9. Registration adds exactly three routes, POST /tasks to create,
  GET /tasks/{id} to fetch and PUT /tasks/{id} to update. The pattern of the id matches
  exactly the strings of the 8-4-4-4-12 hexadecimal shape; a request for
  \<^verbatim>\<open>/tasks/\<close> followed by an id of that shape is dispatched to fetch or update by its
  method, and a request whose id does not have that shape is dispatched to no handler,
  whatever its method: the router answers not-found.\<close>

theorem Register_routes:
  "Register r = r @
     [\<lparr>template = [Static ''/tasks''], handler = t_create, methods = [''POST'']\<rparr>,
      \<lparr>template = [Static ''/tasks/'', Variable ''id'' uuidRegEx], handler = t_task,
        methods = [''GET'']\<rparr>,
      \<lparr>template = [Static ''/tasks/'', Variable ''id'' uuidRegEx], handler = t_update,
        methods = [''PUT'']\<rparr>] \<and>
   (match_prefix uuidRegEx ident = Some []) = uuid_shape ident \<and>
   Match (Register []) False ''POST'' ''/tasks'' = Dispatched t_create [] \<and>
   (uuid_shape ident \<longrightarrow>
      Match (Register []) False ''GET'' (''/tasks/'' @ ident) = Dispatched t_task [(''id'', ident)] \<and>
      Match (Register []) False ''PUT'' (''/tasks/'' @ ident) = Dispatched t_update [(''id'', ident)]) \<and>
   (\<not> uuid_shape ident \<longrightarrow> Match (Register []) False meth (''/tasks/'' @ ident) = NotFound)"
proof (intro conjI impI)
  show "Register r = r @
     [\<lparr>template = [Static ''/tasks''], handler = t_create, methods = [''POST'']\<rparr>,
      \<lparr>template = [Static ''/tasks/'', Variable ''id'' uuidRegEx], handler = t_task,
        methods = [''GET'']\<rparr>,
      \<lparr>template = [Static ''/tasks/'', Variable ''id'' uuidRegEx], handler = t_update,
        methods = [''PUT'']\<rparr>]"
    by (rule Register_append)
next
  show "(match_prefix uuidRegEx ident = Some []) = uuid_shape ident"
    by (rule uuidRegEx_shape)
next
  show "Match (Register []) False ''POST'' ''/tasks'' = Dispatched t_create []"
    by (simp add: Register_empty)
next
  assume "uuid_shape ident"
  then show "Match (Register []) False ''GET'' (''/tasks/'' @ ident) = Dispatched t_task [(''id'', ident)]"
    by (simp only: Register_empty Match.simps route.simps match_path_tasks match_path_id)
      simp
next
  assume "uuid_shape ident"
  then show "Match (Register []) False ''PUT'' (''/tasks/'' @ ident) = Dispatched t_update [(''id'', ident)]"
    by (simp only: Register_empty Match.simps route.simps match_path_tasks match_path_id)
      simp
next
  assume "\<not> uuid_shape ident"
  then show "Match (Register []) False meth (''/tasks/'' @ ident) = NotFound"
    by (simp only: Register_empty Match.simps route.simps match_path_tasks match_path_id)
      simp
qed


theorem Register_routes_witness:
  "uuid_shape ''123e4567-e89b-12d3-a456-426614174000'' \<and>
   Match (Register []) False ''GET'' (''/tasks/'' @ ''123e4567-e89b-12d3-a456-426614174000'')
     = Dispatched t_task [(''id'', ''123e4567-e89b-12d3-a456-426614174000'')] \<and>
   Match (Register []) False ''PUT'' (''/tasks/'' @ ''123e4567-e89b-12d3-a456-426614174000'')
     = Dispatched t_update [(''id'', ''123e4567-e89b-12d3-a456-426614174000'')] \<and>
   \<not> uuid_shape ''123e4567-e89b-12d3-a456-42661417400g'' \<and>
   Match (Register []) False ''GET'' (''/tasks/'' @ ''123e4567-e89b-12d3-a456-42661417400g'')
     = NotFound \<and>
   \<not> uuid_shape ''42'' \<and>
   Match (Register []) False ''PUT'' (''/tasks/'' @ ''42'') = NotFound"
proof -
  have u1: "uuid_shape ''123e4567-e89b-12d3-a456-426614174000''"
    by (simp add: uuid_shape_def hex_digit_def)
  have u2: "\<not> uuid_shape ''123e4567-e89b-12d3-a456-42661417400g''"
    by (simp add: uuid_shape_def hex_digit_def)
  have u3: "\<not> uuid_shape ''42''"
    by (simp add: uuid_shape_def)
  from u1 Register_routes [where r = "[]" and ident = "''123e4567-e89b-12d3-a456-426614174000''"]
  have d: "Match (Register []) False ''GET''
        (''/tasks/'' @ ''123e4567-e89b-12d3-a456-426614174000'')
      = Dispatched t_task [(''id'', ''123e4567-e89b-12d3-a456-426614174000'')] \<and>
    Match (Register []) False ''PUT'' (''/tasks/'' @ ''123e4567-e89b-12d3-a456-426614174000'')
      = Dispatched t_update [(''id'', ''123e4567-e89b-12d3-a456-426614174000'')]"
    by blast
  from u2 Register_routes [where r = "[]" and ident = "''123e4567-e89b-12d3-a456-42661417400g''"
      and meth = "''GET''"]
  have n1: "Match (Register []) False ''GET''
      (''/tasks/'' @ ''123e4567-e89b-12d3-a456-42661417400g'') = NotFound"
    by blast
  from u3 Register_routes [where r = "[]" and ident = "''42''" and meth = "''PUT''"]
  have n2: "Match (Register []) False ''PUT'' (''/tasks/'' @ ''42'') = NotFound"
    by blast
  from u1 u2 u3 d n1 n2 show ?thesis
    by blast
qed

end
